theory Spec2Isabelle
  imports Main
begin

section \<open>Python values used by main.py\<close>

text \<open>
  Strings and byte strings are lists of 8-bit characters. Python's \<open>Optional[str]\<close> is
  \<open>string option\<close>; such a value is truthy when it is present and not empty.
\<close>

type_synonym bytes = string

text \<open>\<open>s.startswith(p)\<close>\<close>

definition startswith :: "string \<Rightarrow> string \<Rightarrow> bool" where
  "startswith p s = (take (length p) s = p)"

text \<open>\<open>p in s\<close> for two strings: \<open>p\<close> occurs in \<open>s\<close> as a contiguous piece.\<close>

fun py_in :: "string \<Rightarrow> string \<Rightarrow> bool" where
  "py_in p [] = (p = [])"
| "py_in p (c # cs) = (startswith p (c # cs) \<or> py_in p cs)"

text \<open>
  \<open>s.lower()\<close> on characters below 256: the ASCII capitals and the Latin-1 capitals
  (192 to 222 without the multiplication sign 215) move up by 32.
\<close>

definition lower_char :: "char \<Rightarrow> char" where
  "lower_char c =
     (let n = (of_char c :: nat) in
      if (65 \<le> n \<and> n \<le> 90) \<or> (192 \<le> n \<and> n \<le> 222 \<and> n \<noteq> 215)
      then char_of (n + 32) else c)"

definition lower :: "string \<Rightarrow> string" where
  "lower s = map lower_char s"

text \<open>\<open>s.split(sep)\<close> for a non-empty separator, scanning from the left.\<close>

fun split_from :: "string \<Rightarrow> string \<Rightarrow> nat \<Rightarrow> string \<Rightarrow> string list" where
  "split_from sep cur skip [] = [rev cur]"
| "split_from sep cur (Suc k) (c # cs) = split_from sep cur k cs"
| "split_from sep cur 0 (c # cs) =
     (if sep \<noteq> [] \<and> startswith sep (c # cs)
      then rev cur # split_from sep [] (length sep - 1) cs
      else split_from sep (c # cur) 0 cs)"

definition py_split :: "string \<Rightarrow> string \<Rightarrow> string list" where
  "py_split sep s = split_from sep [] 0 s"

text \<open>\<open>new.join(parts)\<close> and \<open>s.replace(old, new)\<close> (every occurrence, left to right).\<close>

fun py_join :: "string \<Rightarrow> string list \<Rightarrow> string" where
  "py_join new [] = []"
| "py_join new [p] = p"
| "py_join new (p # q # ps) = p @ new @ py_join new (q # ps)"

definition py_replace :: "string \<Rightarrow> string \<Rightarrow> string \<Rightarrow> string" where
  "py_replace old new s = py_join new (py_split old s)"

text \<open>\<open>s.rstrip(chars)\<close>\<close>

definition rstrip :: "string \<Rightarrow> string \<Rightarrow> string" where
  "rstrip chars s = rev (dropWhile (\<lambda>c. c \<in> set chars) (rev s))"

text \<open>\<open>str.isspace\<close> on characters below 256, and \<open>s.strip()\<close>.\<close>

definition isspace :: "char \<Rightarrow> bool" where
  "isspace c =
     (let n = (of_char c :: nat) in
      (9 \<le> n \<and> n \<le> 13) \<or> (28 \<le> n \<and> n \<le> 32) \<or> n = 133 \<or> n = 160)"

definition strip :: "string \<Rightarrow> string" where
  "strip s = rev (dropWhile isspace (rev (dropWhile isspace s)))"

subsection \<open>Exceptions\<close>

text \<open>
  The exception classes that main.py raises or names in an \<open>except\<close> clause, and the
  built-in ones its operations on values of the wrong type raise. Every one is a subclass
  of \<open>Exception\<close>; \<open>sys.exit\<close> is a separate outcome (see \<open>flow\<close> and \<open>result\<close>
  below). An exception carries the text \<open>str(e)\<close> gives.
\<close>

datatype exn_class =
    NotFoundError | ValueError | JSONDecodeError | RequestException
  | TimeoutException | WebDriverException | OSError
  | AttributeError | TypeError | KeyError | IndexError | OtherException

datatype exn = Exn exn_class string

fun str_of :: "exn \<Rightarrow> string" where
  "str_of (Exn c m) = m"

fun class_of :: "exn \<Rightarrow> exn_class" where
  "class_of (Exn c m) = c"

text \<open>
  \<open>isinstance(e, C)\<close>: requests' JSONDecodeError derives from both RequestException and
  ValueError, selenium's TimeoutException from WebDriverException; IOError is OSError.
\<close>

definition isinstance :: "exn \<Rightarrow> exn_class \<Rightarrow> bool" where
  "isinstance e C =
     (class_of e = C
      \<or> (class_of e = JSONDecodeError \<and> (C = ValueError \<or> C = RequestException))
      \<or> (class_of e = TimeoutException \<and> C = WebDriverException))"

subsection \<open>JSON values\<close>

text \<open>
  What \<open>response.json()\<close> returns: \<open>None\<close>, a bool, a number (integers only here), a
  string, a list, or a dict with string keys (its items, keys distinct).
\<close>

datatype json =
    JNull | JBool bool | JNum int | JStr string
  | JArr "json list" | JObj "(string \<times> json) list"

text \<open>Python's truth value of a JSON value.\<close>

fun truthy :: "json \<Rightarrow> bool" where
  "truthy JNull = False"
| "truthy (JBool b) = b"
| "truthy (JNum n) = (n \<noteq> 0)"
| "truthy (JStr s) = (s \<noteq> [])"
| "truthy (JArr xs) = (xs \<noteq> [])"
| "truthy (JObj kvs) = (kvs \<noteq> [])"

text \<open>\<open>d.get(key, default)\<close>: only a dict has the method.\<close>

fun dict_get :: "json \<Rightarrow> string \<Rightarrow> json \<Rightarrow> exn + json" where
  "dict_get (JObj kvs) k dflt = Inr (case map_of kvs k of None \<Rightarrow> dflt | Some v \<Rightarrow> v)"
| "dict_get v k dflt = Inl (Exn AttributeError ''object has no attribute get'')"

text \<open>\<open>v[0]\<close>\<close>

fun getitem0 :: "json \<Rightarrow> exn + json" where
  "getitem0 (JArr (x # xs)) = Inr x"
| "getitem0 (JArr []) = Inl (Exn IndexError ''list index out of range'')"
| "getitem0 (JStr (c # cs)) = Inr (JStr [c])"
| "getitem0 (JStr []) = Inl (Exn IndexError ''string index out of range'')"
| "getitem0 (JObj kvs) = Inl (Exn KeyError ''0'')"
| "getitem0 v = Inl (Exn TypeError ''object is not subscriptable'')"

text \<open>\<open>v == 0\<close>: \<open>False == 0\<close> holds in Python.\<close>

fun eq_zero :: "json \<Rightarrow> bool" where
  "eq_zero (JNum n) = (n = 0)"
| "eq_zero (JBool b) = (\<not> b)"
| "eq_zero v = False"

text \<open>\<open>p in v\<close> for a string \<open>p\<close> and any JSON value \<open>v\<close>.\<close>

fun contains :: "string \<Rightarrow> json \<Rightarrow> exn + bool" where
  "contains p (JStr s) = Inr (py_in p s)"
| "contains p (JArr xs) = Inr (JStr p \<in> set xs)"
| "contains p (JObj kvs) = Inr (p \<in> fst ` set kvs)"
| "contains p v = Inl (Exn TypeError ''argument is not iterable'')"

text \<open>Sequencing of steps that may raise.\<close>

definition and_then :: "exn + 'a \<Rightarrow> ('a \<Rightarrow> exn + 'b) \<Rightarrow> exn + 'b" where
  "and_then m f = (case m of Inl e \<Rightarrow> Inl e | Inr v \<Rightarrow> f v)"

section \<open>The outside world\<close>

text \<open>
  What \<open>requests.get(api_url, params, timeout=15)\<close>, \<open>raise_for_status\<close> and
  \<open>api_res.json()\<close> give: a RequestException (with its text), a body that is not JSON
  (the text of the JSONDecodeError), or the decoded value.
\<close>

datatype api_outcome = ApiFailed string | ApiNotJson string | ApiJson json

text \<open>
  What \<open>requests.get(url, headers, cookies, stream=True)\<close>, \<open>raise_for_status\<close> and
  the reading of the body give: a RequestException (with its text), or a response with
  its content-type header, if any, and its body. \<open>iter_content(chunk_size=1024)\<close> hands
  the body out in pieces of 1024 bytes.
\<close>

datatype http_outcome =
    RequestFailed string
  | Response "string option" bytes

record cookie =
  cookie_name :: string
  cookie_value :: string
  cookie_domain :: string
  cookie_path :: string

text \<open>
  What the Chrome session started for one Sci-Hub page does at each call the extractor
  makes. \<open>unavailable_text\<close> is the six-second wait for one of the two "not available"
  paragraphs: \<open>None\<close> when one is there, the exception of \<open>until\<close> otherwise
  (TimeoutException when neither appears). \<open>pdf_element\<close> is the wait for
  \<open>iframe#pdf | embed#pdf\<close> followed by \<open>get_attribute("src")\<close>. \<open>iframes\<close> is
  \<open>find_elements(By.TAG_NAME, "iframe")\<close> with the \<open>src\<close> of each.
\<close>

record browser_script =
  chrome_start :: "exn option"
  page_load :: "exn option"
  unavailable_text :: "exn option"
  pdf_element :: "exn + (exn + string option)"
  iframes :: "exn + (exn + string option) list"
  session_cookies :: "exn + cookie list"
  quit_result :: "exn option"

text \<open>
  Everything main.py reads from outside: the module constant \<open>SCI_HUB_URL\<close>, the
  OpenAlex API, the download server, the browser, the file system, and the library
  functions \<open>urljoin\<close>, \<open>os.path.join\<close> and \<open>str()\<close> of a value that is not a string.
\<close>

record env =
  SCI_HUB_URL :: string
  openalex_get :: "string \<Rightarrow> (string \<times> string) list \<Rightarrow> api_outcome"
  pdf_get :: "string \<Rightarrow> cookie list option \<Rightarrow> http_outcome"
  browser :: "string \<Rightarrow> browser_script"
  urljoin :: "string \<Rightarrow> string \<Rightarrow> string"
  py_format :: "json \<Rightarrow> string"
  path_exists :: "string \<Rightarrow> bool"
  makedirs :: "string \<Rightarrow> string option"
  path_join :: "string \<Rightarrow> string \<Rightarrow> string"
  write_file :: "string \<Rightarrow> bytes \<Rightarrow> string option"

text \<open>\<open>f"{v}"\<close>\<close>

fun fmt :: "env \<Rightarrow> json \<Rightarrow> string" where
  "fmt env (JStr s) = s"
| "fmt env v = py_format env v"

section \<open>Content Fetcher: \<open>download_pdf_content\<close>\<close>

text \<open>\<open>pdf_url.split('#')[0]\<close>\<close>

definition strip_fragment :: "string \<Rightarrow> string" where
  "strip_fragment pdf_url = takeWhile (\<lambda>c. c \<noteq> CHR ''#'') pdf_url"

text \<open>Lines 370 to 375: a cookie jar only for a non-empty list of cookies.\<close>

definition cookie_jar_of :: "cookie list option \<Rightarrow> cookie list option" where
  "cookie_jar_of selenium_cookies =
     (case selenium_cookies of
        None \<Rightarrow> None
      | Some cs \<Rightarrow> if cs = [] then None else Some cs)"

text \<open>\<open>response.headers.get("content-type", "").lower()\<close>\<close>

definition content_type_of :: "string option \<Rightarrow> string" where
  "content_type_of ct = lower (case ct of None \<Rightarrow> [] | Some h \<Rightarrow> h)"

text \<open>\<open>"application/pdf" in content_type or "octet-stream" in content_type\<close>\<close>

definition recognised_type :: "string \<Rightarrow> bool" where
  "recognised_type content_type =
     (py_in ''application/pdf'' content_type \<or> py_in ''octet-stream'' content_type)"

definition download_pdf_content ::
  "env \<Rightarrow> string \<Rightarrow> cookie list option \<Rightarrow> exn + bytes" where
  "download_pdf_content env pdf_url selenium_cookies =
     (let pdf_url_to_download = strip_fragment pdf_url;
          cookie_jar = cookie_jar_of selenium_cookies
      in case pdf_get env pdf_url_to_download cookie_jar of
           RequestFailed e \<Rightarrow>
             Inl (Exn NotFoundError
                    (''Failed to download PDF from '' @ pdf_url_to_download @ '': '' @ e))
         | Response ct body \<Rightarrow>
             (let content_type = content_type_of ct in
              if \<not> recognised_type content_type
              then
                (let first_chunk = take 1024 body in
                 if \<not> startswith ''%PDF-'' first_chunk
                 then Inl (Exn NotFoundError
                        (''URL '' @ pdf_url_to_download
                         @ '' did not return a PDF. Content-type: '' @ content_type
                         @ ''. Try opening the URL in a browser.''))
                 else
                   (let pdf_bytes = first_chunk @ drop 1024 body in
                    if pdf_bytes = []
                    then Inl (Exn NotFoundError
                           (''Downloaded PDF from '' @ pdf_url_to_download @ '' is empty.''))
                    else Inr pdf_bytes))
              else
                (let pdf_bytes = body in
                 if pdf_bytes = []
                 then Inl (Exn NotFoundError
                        (''Downloaded PDF from '' @ pdf_url_to_download @ '' is empty.''))
                 else Inr pdf_bytes)))"

section \<open>Metadata Resolver: \<open>get_paper_metadata\<close>\<close>

text \<open>An optional string as its text; \<open>if v:\<close> is then \<open>opt_str v \<noteq> []\<close>.\<close>

definition opt_str :: "string option \<Rightarrow> string" where
  "opt_str v = (case v of None \<Rightarrow> [] | Some s \<Rightarrow> s)"

definition base_api_url :: string where
  "base_api_url = ''https://api.openalex.org/works''"

text \<open>Lines 72 to 75: the DOI without its resolver prefix.\<close>

definition normalize_doi :: "string \<Rightarrow> string" where
  "normalize_doi doi_in =
     (if startswith ''https://doi.org/'' doi_in
      then drop (length ''https://doi.org/'') doi_in
      else if startswith ''http://doi.org/'' doi_in
      then drop (length ''http://doi.org/'') doi_in
      else doi_in)"

text \<open>Lines 70 to 107: the URL to query, its parameters, and \<open>identifier_used\<close>.\<close>

datatype query =
  Query (api_url: string) (params: "(string \<times> string) list") (identifier_used: string)

definition build_query ::
  "string option \<Rightarrow> string option \<Rightarrow> string option \<Rightarrow> exn + query" where
  "build_query doi_in name_in url_in =
     (if opt_str doi_in \<noteq> [] then
        (let d = normalize_doi (opt_str doi_in) in
         Inr (Query (base_api_url @ ''/https://doi.org/'' @ d) [] (''DOI: '' @ d)))
      else if opt_str name_in \<noteq> [] then
        Inr (Query base_api_url
               [(''filter'', ''title.search:'' @ opt_str name_in),
                (''sort'', ''relevance_score:desc''),
                (''per-page'', ''1'')]
               (''Name: '' @ opt_str name_in))
      else if opt_str url_in \<noteq> [] then
        (let u = opt_str url_in in
         if py_in ''doi.org'' u then
           (let extracted_doi = last (py_split ''doi.org/'' u) in
            Inr (Query (base_api_url @ ''/https://doi.org/'' @ extracted_doi) []
                   (''URL (interpreted as DOI): '' @ u)))
         else if py_in ''arxiv.org/abs/'' u \<or> py_in ''arxiv.org/pdf/'' u then
           (let arxiv_id =
                  py_replace ''.pdf'' []
                    (py_replace ''abs/'' [] (last (py_split ''arxiv.org/'' u)))
            in Inr (Query (base_api_url @ ''/arxiv:'' @ arxiv_id) []
                      (''URL (interpreted as arXiv): '' @ u)))
         else Inr (Query (base_api_url @ ''/'' @ u) [] (''URL: '' @ u)))
      else Inl (Exn ValueError
                  ''No identifier (DOI, name, or URL) provided to get_paper_metadata.''))"

text \<open>
  Lines 125 to 130: for a title search, an empty result count is "not found" and the
  first result is taken; otherwise an empty answer is "not found".
\<close>

definition select_record :: "string option \<Rightarrow> string \<Rightarrow> json \<Rightarrow> exn + json" where
  "select_record name_in ident metadata =
     and_then
       (if opt_str name_in \<noteq> [] then
          and_then (dict_get metadata ''meta'' (JObj [])) (\<lambda>meta.
          and_then (dict_get meta ''count'' (JNum 0)) (\<lambda>count. Inr (eq_zero count)))
        else Inr False)
       (\<lambda>none_found.
          if none_found
          then Inl (Exn NotFoundError
                      (''No paper found on OpenAlex for name: '' @ opt_str name_in))
          else
            and_then
              (if opt_str name_in \<noteq> [] then dict_get metadata ''results'' JNull
               else Inr JNull)
              (\<lambda>results.
                 if opt_str name_in \<noteq> [] \<and> truthy results then
                   and_then (dict_get metadata ''results'' JNull) getitem0
                 else if \<not> truthy metadata
                 then Inl (Exn NotFoundError
                             (''No metadata returned from OpenAlex for '' @ ident))
                 else Inr metadata))"

text \<open>Lines 132 to 134: the record's DOI without the \<open>https://doi.org/\<close> prefix.\<close>

definition record_doi :: "json \<Rightarrow> exn + json" where
  "record_doi metadata =
     and_then (dict_get metadata ''doi'' JNull) (\<lambda>final_doi.
       if truthy final_doi then
         (case final_doi of
            JStr s \<Rightarrow>
              Inr (if startswith ''https://doi.org/'' s
                   then JStr (drop (length ''https://doi.org/'') s) else JStr s)
          | _ \<Rightarrow> Inl (Exn AttributeError ''object has no attribute startswith''))
       else Inr final_doi)"

text \<open>
  Lines 139 to 179: the candidate document URL. The \<open>host_venue\<close> branch and the two
  \<open>landing_page_url\<close> branches only \<open>pass\<close>: they read fields of dicts that were read
  before and assign nothing.
\<close>

definition select_pdf_url :: "json \<Rightarrow> exn + json" where
  "select_pdf_url metadata =
     and_then (dict_get metadata ''open_access'' JNull) (\<lambda>open_access_info.
     and_then
       (if truthy open_access_info then dict_get open_access_info ''oa_url'' JNull
        else Inr JNull)
       (\<lambda>pdf_url.
          if \<not> truthy pdf_url then
            and_then (dict_get metadata ''primary_location'' JNull) (\<lambda>primary_location.
            and_then
              (if truthy primary_location then dict_get primary_location ''is_oa'' JNull
               else Inr JNull)
              (\<lambda>is_oa.
                 if truthy primary_location \<and> truthy is_oa then
                   and_then (dict_get metadata ''best_oa_location'' JNull) (\<lambda>best_oa_loc.
                   and_then
                     (if truthy best_oa_loc then dict_get best_oa_loc ''pdf_url'' JNull
                      else Inr JNull)
                     (\<lambda>best_pdf_url.
                        if truthy best_oa_loc \<and> truthy best_pdf_url then Inr best_pdf_url
                        else Inr pdf_url))
                 else Inr pdf_url))
          else Inr pdf_url))"

text \<open>
  \<open>re.search(r"arxiv.org/abs/([^/]+)", s)\<close>: the leftmost place where \<open>arxiv\<close>, any
  character but a newline, \<open>org/abs/\<close> and at least one character other than \<open>/\<close>
  follow each other; the group is the longest run of such characters.
\<close>

definition match_here :: "string \<Rightarrow> string option" where
  "match_here s =
     (let grp = takeWhile (\<lambda>c. c \<noteq> CHR ''/'') (drop 14 s) in
      if startswith ''arxiv'' s \<and> 5 < length s \<and> s ! 5 \<noteq> CHR 0x0A
         \<and> startswith ''org/abs/'' (drop 6 s) \<and> grp \<noteq> []
      then Some grp else None)"

fun re_search_arxiv :: "string \<Rightarrow> string option" where
  "re_search_arxiv [] = None"
| "re_search_arxiv (c # cs) =
     (case match_here (c # cs) of
        Some grp \<Rightarrow> Some grp
      | None \<Rightarrow> re_search_arxiv cs)"

text \<open>Lines 184 to 194: an arXiv abstract page becomes the direct PDF link.\<close>

definition arxiv_correction :: "json \<Rightarrow> exn + json" where
  "arxiv_correction pdf_url =
     (if truthy pdf_url then
        and_then (contains ''arxiv.org/abs/'' pdf_url) (\<lambda>is_abs.
          if is_abs then
            (case pdf_url of
               JStr s \<Rightarrow>
                 (case re_search_arxiv s of
                    Some arxiv_id \<Rightarrow>
                      Inr (JStr (''https://arxiv.org/pdf/'' @ arxiv_id @ ''.pdf''))
                  | None \<Rightarrow> Inr pdf_url)
             | _ \<Rightarrow> Inl (Exn TypeError ''expected string or bytes-like object''))
          else Inr pdf_url)
      else Inr pdf_url)"

text \<open>The function: (DOI, title, PDF URL, API URL queried), or the exception raised.\<close>

definition get_paper_metadata ::
  "env \<Rightarrow> string option \<Rightarrow> string option \<Rightarrow> string option
     \<Rightarrow> exn + (json \<times> json \<times> json \<times> string)" where
  "get_paper_metadata env doi_in name_in url_in =
     and_then (build_query doi_in name_in url_in) (\<lambda>q.
       case openalex_get env (api_url q) (params q) of
         ApiFailed e \<Rightarrow>
           Inl (Exn NotFoundError
                  (''OpenAlex API request failed for '' @ identifier_used q @ '': '' @ e))
       | ApiNotJson e \<Rightarrow> Inl (Exn JSONDecodeError e)
       | ApiJson response \<Rightarrow>
           and_then (select_record name_in (identifier_used q) response) (\<lambda>metadata.
           and_then (record_doi metadata) (\<lambda>final_doi.
           and_then (dict_get metadata ''display_name'' (JStr ''Unknown Title'')) (\<lambda>title.
           and_then (select_pdf_url metadata) (\<lambda>pdf_url.
           and_then (arxiv_correction pdf_url) (\<lambda>pdf_url'.
             Inr (final_doi, title, pdf_url', api_url q)))))))"

section \<open>Rendered-Page Extractor: \<open>retrieve_scihub_pdf_link_selenium\<close>\<close>

text \<open>Decimal digits of a number, for \<open>f"{len(cookies)}"\<close>.\<close>

function show_nat :: "nat \<Rightarrow> string" where
  "show_nat n =
     (if n < 10 then [char_of (48 + n)]
      else show_nat (n div 10) @ [char_of (48 + n mod 10)])"
  by pat_completeness auto
termination
  by (relation "measure id") auto

text \<open>
  The session handle. \<open>teardowns\<close> counts how often the real \<open>quit\<close> of the driver ran;
  \<open>quit_patched\<close> says that \<open>driver.quit\<close> was replaced by \<open>lambda: None\<close>.
\<close>

record driver =
  teardowns :: nat
  quit_patched :: bool

definition new_driver :: driver where
  "new_driver = \<lparr>teardowns = 0, quit_patched = False\<rparr>"

text \<open>\<open>driver.quit()\<close>: the patched method does nothing.\<close>

definition driver_quit :: "browser_script \<Rightarrow> driver \<Rightarrow> exn option \<times> driver" where
  "driver_quit b d =
     (if quit_patched d then (None, d)
      else (quit_result b, d\<lparr>teardowns := Suc (teardowns d)\<rparr>))"

text \<open>
  The extractor logs through the \<open>log_func\<close> it is given, which updates the caller's
  state \<open>'s\<close>. Lines 241 to 260: the check for the "not available" text.
\<close>

definition check_unavailable ::
  "(string \<Rightarrow> string \<Rightarrow> 's \<Rightarrow> 's) \<Rightarrow> browser_script \<Rightarrow> string \<Rightarrow> 's \<Rightarrow> exn option \<times> 's" where
  "check_unavailable log_func b doi st =
     (case unavailable_text b of
        None \<Rightarrow>
          (Some (Exn NotFoundError (''Sci-Hub does not have the document for DOI: '' @ doi)),
           log_func ''WARNING''
             (''[Selenium] Sci-Hub page indicates document not found for DOI: '' @ doi
              @ '' (via specific text check)'') st)
      | Some e \<Rightarrow>
          if isinstance e TimeoutException then
            (None,
             log_func ''DEBUG''
               (''[Selenium] 'Not found' message not detected via specific text check within ''
                @ show_nat 6 @ ''s. Proceeding to PDF check.'') st)
          else if isinstance e WebDriverException then
            (None,
             log_func ''DEBUG''
               (''[Selenium] WebDriverException during 'not found' message check: ''
                @ str_of e @ ''. Proceeding to PDF check.'') st)
          else (Some e, st))"

text \<open>Lines 286 to 293: the first iframe whose \<open>src\<close> contains \<open>.pdf\<close>.\<close>

fun scan_iframes ::
  "(string \<Rightarrow> string \<Rightarrow> 's \<Rightarrow> 's) \<Rightarrow> (exn + string option) list \<Rightarrow> 's
     \<Rightarrow> (exn + string option) \<times> 's" where
  "scan_iframes log_func [] st = (Inr None, st)"
| "scan_iframes log_func (Inl e # rest) st = (Inl e, st)"
| "scan_iframes log_func (Inr src_attr # rest) st =
     (if opt_str src_attr \<noteq> [] \<and> py_in ''.pdf'' (lower (opt_str src_attr)) then
        (Inr src_attr,
         log_func ''INFO''
           (''[Selenium] Found iframe with .pdf in src: '' @ opt_str src_attr) st)
      else if opt_str src_attr \<noteq> [] then
        scan_iframes log_func rest
          (log_func ''DEBUG''
             (''[Selenium] Found iframe with src: '' @ opt_str src_attr
              @ '' (does not contain .pdf)'') st)
      else scan_iframes log_func rest st)"

text \<open>Lines 268 to 293: \<open>pdf_src\<close>, or the exception that leaves the inner \<open>try\<close>.\<close>

definition locate_pdf_src ::
  "(string \<Rightarrow> string \<Rightarrow> 's \<Rightarrow> 's) \<Rightarrow> browser_script \<Rightarrow> 's \<Rightarrow> (exn + string option) \<times> 's" where
  "locate_pdf_src log_func b st0 =
     (let st = log_func ''INFO''
                 ''[Selenium] Looking for iframe with id='pdf' or embed with id='pdf'...'' st0;
          on_error = (\<lambda>e.
            if isinstance e TimeoutException then
              (let st1 = log_func ''WARNING''
                     ''[Selenium] Timed out waiting for iframe/embed with id='pdf'. Trying other methods.''
                     st
               in case iframes b of
                    Inl e' \<Rightarrow> (Inl e', st1)
                  | Inr frames \<Rightarrow>
                      scan_iframes log_func frames
                        (if frames = []
                         then log_func ''INFO'' ''[Selenium] No iframes found on page.'' st1
                         else st1))
            else (Inl e, st))
      in case pdf_element b of
           Inl e \<Rightarrow> on_error e
         | Inr (Inl e) \<Rightarrow> on_error e
         | Inr (Inr pdf_src) \<Rightarrow>
             (Inr pdf_src,
              if opt_str pdf_src \<noteq> [] then
                log_func ''INFO''
                  (''[Selenium] Found PDF element (iframe/embed#pdf) with src: ''
                   @ opt_str pdf_src) st
              else
                log_func ''WARNING''
                  ''[Selenium] Found PDF element (iframe/embed#pdf) but it has no src.'' st))"

text \<open>Lines 300 to 304.\<close>

definition resolve_link :: "env \<Rightarrow> string \<Rightarrow> string \<Rightarrow> string" where
  "resolve_link env current_sci_hub_url pdf_src =
     (if startswith ''//'' pdf_src then ''https:'' @ pdf_src
      else if \<not> startswith ''http'' pdf_src then urljoin env current_sci_hub_url pdf_src
      else pdf_src)"

text \<open>Lines 236 to 322: the body of the \<open>try\<close> once the driver exists.\<close>

definition session_body ::
  "(string \<Rightarrow> string \<Rightarrow> 's \<Rightarrow> 's) \<Rightarrow> env \<Rightarrow> browser_script \<Rightarrow> string \<Rightarrow> string \<Rightarrow> 's
     \<Rightarrow> (exn + string \<times> cookie list option) \<times> 's" where
  "session_body log_func env b doi current_sci_hub_url st0 =
     (case page_load b of
        Some e \<Rightarrow> (Inl e, st0)
      | None \<Rightarrow>
     (case check_unavailable log_func b doi st0 of
        (Some e, st1) \<Rightarrow> (Inl e, st1)
      | (None, st1) \<Rightarrow>
     (case locate_pdf_src log_func b st1 of
        (Inl e, st2) \<Rightarrow> (Inl e, st2)
      | (Inr found, st2) \<Rightarrow>
          if opt_str found = [] then
            (Inl (Exn NotFoundError ''[Selenium] PDF iframe/embed not found on Sci-Hub page.''),
             log_func ''ERROR''
               ''[Selenium] Could not find PDF source via iframe/embed after all attempts.'' st2)
          else
            (let pdf_src = resolve_link env current_sci_hub_url (opt_str found);
                 st3 = log_func ''SUCCESS''
                         (''[Selenium] Successfully retrieved PDF link: '' @ pdf_src) st2
             in case session_cookies b of
                  Inr selenium_cookies \<Rightarrow>
                    (Inr (pdf_src, Some selenium_cookies),
                     if selenium_cookies \<noteq> [] then
                       log_func ''INFO''
                         (''[Selenium] Extracted '' @ show_nat (length selenium_cookies)
                          @ '' cookie(s) from the session.'') st3
                     else
                       log_func ''INFO'' ''[Selenium] No cookies found in the current session.'' st3)
                | Inl e \<Rightarrow>
                    if isinstance e WebDriverException then
                      (Inr (pdf_src, None),
                       log_func ''WARNING''
                         (''[Selenium] Could not extract cookies: '' @ str_of e) st3)
                    else (Inl e, st3)))))"

text \<open>Lines 324 to 331: the \<open>except\<close> clauses of the outer \<open>try\<close>, in their order.\<close>

definition translate_error ::
  "(string \<Rightarrow> string \<Rightarrow> 's \<Rightarrow> 's) \<Rightarrow> (exn + 'r) \<times> 's \<Rightarrow> (exn + 'r) \<times> 's" where
  "translate_error log_func r =
     (case r of
        (Inr v, st) \<Rightarrow> (Inr v, st)
      | (Inl e, st) \<Rightarrow>
          if isinstance e WebDriverException then
            (Inl (Exn NotFoundError (''[Selenium] WebDriver error: '' @ str_of e)),
             log_func ''CRITICAL_ERROR''
               (''[Selenium] WebDriverException occurred: '' @ str_of e) st)
          else if isinstance e NotFoundError then (Inl e, st)
          else
            (Inl (Exn NotFoundError (''[Selenium] Unexpected error: '' @ str_of e)),
             log_func ''CRITICAL_ERROR''
               (''[Selenium] An unexpected error occurred: '' @ str_of e) st))"

text \<open>
  Lines 340 to 346: the text of the warning, by the \<open>except\<close> clause that catches what
  \<open>quit\<close> raised.
\<close>

definition quit_warning :: "exn \<Rightarrow> string" where
  "quit_warning e =
     (if isinstance e OSError then
        ''[Selenium] OSError during explicit driver.quit(): '' @ str_of e
        @ ''. This might be a cleanup issue with the driver.''
      else if isinstance e WebDriverException then
        ''[Selenium] WebDriverException during explicit driver.quit(): '' @ str_of e @ ''.''
      else
        ''[Selenium] Unexpected error during explicit driver.quit(): '' @ str_of e @ ''.'')"

text \<open>
  Lines 332 to 347: the \<open>finally\<close> block for a driver that exists. When \<open>quit\<close> raises,
  the assignment \<open>driver.quit = lambda: None\<close> after it is skipped.
\<close>

definition release ::
  "(string \<Rightarrow> string \<Rightarrow> 's \<Rightarrow> 's) \<Rightarrow> browser_script \<Rightarrow> driver \<Rightarrow> 's \<Rightarrow> driver \<times> 's" where
  "release log_func b d st0 =
     (let st = log_func ''INFO'' ''[Selenium] Quitting WebDriver.'' st0 in
      case driver_quit b d of
        (None, d') \<Rightarrow> (d'\<lparr>quit_patched := True\<rparr>, st)
      | (Some e, d') \<Rightarrow> (d', log_func ''WARNING'' (quit_warning e) st))"

text \<open>
  The function: what it returns or raises, the session handle as it leaves it (\<open>None\<close>
  when no driver was created), and the caller's state after its log calls.
\<close>

definition retrieve_scihub_pdf_link_selenium ::
  "(string \<Rightarrow> string \<Rightarrow> 's \<Rightarrow> 's) \<Rightarrow> env \<Rightarrow> string \<Rightarrow> string \<Rightarrow> 's
     \<Rightarrow> (exn + string \<times> cookie list option) \<times> driver option \<times> 's" where
  "retrieve_scihub_pdf_link_selenium log_func env doi current_sci_hub_url st0 =
     (if doi = [] then
        (Inl (Exn ValueError ''DOI must be provided for Sci-Hub retrieval.''), None,
         log_func ''ERROR'' ''Selenium: DOI must be provided to retrieve from Sci-Hub.'' st0)
      else
        (let scihub_page_url = rstrip ''/'' current_sci_hub_url @ ''/'' @ doi;
             st = log_func ''INFO''
                    (''[Selenium] Attempting to retrieve PDF link from Sci-Hub page: ''
                     @ scihub_page_url) st0;
             b = browser env scihub_page_url
         in case chrome_start b of
              Some e \<Rightarrow>
                (case translate_error log_func (Inl e, st) of (r, st1) \<Rightarrow> (r, None, st1))
            | None \<Rightarrow>
                (case translate_error log_func
                        (session_body log_func env b doi current_sci_hub_url st) of
                   (r, st1) \<Rightarrow>
                     (case release log_func b new_driver st1 of
                        (d, st2) \<Rightarrow> (r, Some d, st2)))))"

section \<open>Retrieval Orchestrator: \<open>doi_to_pdf_downloader\<close>\<close>

subsection \<open>\<open>sanitize_filename\<close>\<close>

definition invalid_chars :: "char list" where
  "invalid_chars =
     [CHR ''<'', CHR ''>'', CHR '':'', CHR 0x22, CHR ''/'', CHR 0x5C, CHR ''|'', CHR ''?'',
      CHR ''*''] @ map char_of [0 ..< (32 :: nat)]"

text \<open>The title comes from the metadata and may be any JSON value.\<close>

definition sanitize_filename :: "json \<Rightarrow> exn + string" where
  "sanitize_filename title0 =
     (case (if \<not> truthy title0 then JStr ''Unknown_Paper_Title'' else title0) of
        JStr title1 \<Rightarrow>
          (let title2 = py_replace '' '' ''_'' title1;
               title3 = filter (\<lambda>c. c \<notin> set invalid_chars) title2;
               max_len = 200;
               title4 = (if length title3 > max_len then take max_len title3 else title3);
               title5 = rstrip ''. '' title4;
               title6 = (if title5 = [] then ''Sanitized_Paper_Title'' else title5)
           in Inr (title6 @ ''.pdf''))
      | _ \<Rightarrow> Inl (Exn AttributeError ''object has no attribute replace''))"

subsection \<open>\<open>update_simplified_summary\<close>\<close>

text \<open>The lines appended to the summary file.\<close>

definition update_simplified_summary :: "string \<Rightarrow> string \<Rightarrow> string option \<Rightarrow> string list" where
  "update_simplified_summary identifier stat msg =
     [''Identifier: '' @ identifier @ '' | Status: '' @ stat]
     @ (if stat = ''FAILURE'' \<and> opt_str msg \<noteq> []
        then [''  -> Reason: '' @ strip (takeWhile (\<lambda>c. c \<noteq> CHR ''|'') (opt_str msg))]
        else [])
     @ [''---'']"

subsection \<open>The state of one call\<close>

text \<open>The dict \<open>summary_data\<close>.\<close>

record summary =
  identifier_input :: string
  resolved_doi :: json
  paper_title :: json
  status :: string
  message :: string
  openalex_api_url_queried :: "string option"
  direct_oa_pdf_url_tried :: json
  scihub_page_url_tried :: "string option"
  final_pdf_source_url :: "string option"
  local_filepath :: "string option"

text \<open>
  \<open>summary_data\<close> together with the local variables of the call, the events passed to
  \<open>_log\<close> (printed, and appended to the log file when there is one), the lines written to
  the summary file, and \<open>status_trace\<close>: every value \<open>summary_data["status"]\<close> was given,
  in order.
\<close>

record ostate = summary +
  events :: "(string \<times> string) list"
  status_trace :: "string list"
  final_doi :: json
  paper_title_local :: json
  pdf_content :: "bytes option"
  actual_download_source_url :: "string option"
  summary_file :: "string list"

record args =
  identifier_doi :: "string option"
  identifier_name :: "string option"
  identifier_url :: "string option"
  output_dir :: string
  auto_open_pdf :: bool
  is_batch_mode :: bool
  log_file_path :: "string option"
  scihub_retrieval_method :: string
  summary_file_path :: "string option"

text \<open>\<open>summary_data["status"] = v\<close>\<close>

definition set_status :: "string \<Rightarrow> ostate \<Rightarrow> ostate" where
  "set_status v st = st\<lparr>status := v, status_trace := status_trace st @ [v]\<rparr>"

text \<open>The closure \<open>_log\<close> (lines 473 to 482).\<close>

definition inner_log :: "string \<Rightarrow> string \<Rightarrow> ostate \<Rightarrow> ostate" where
  "inner_log stat msg st0 =
     (let st = st0\<lparr>events := events st0 @ [(stat, msg)]\<rparr> in
      if stat \<in> set [''SUCCESS'', ''FAILURE'', ''ERROR'', ''CRITICAL_ERROR'', ''WARNING''] then
        (let st1 = (if status st \<noteq> ''SUCCESS'' then set_status stat st else st) in
         st1\<lparr>message := (if message st1 \<noteq> [] then message st1 @ '' | '' @ msg else msg)\<rparr>)
      else st)"

text \<open>\<open>identifier_doi or identifier_name or identifier_url or "Unknown Identifier"\<close>\<close>

definition input_identifier_str :: "args \<Rightarrow> string" where
  "input_identifier_str a =
     (if opt_str (identifier_doi a) \<noteq> [] then opt_str (identifier_doi a)
      else if opt_str (identifier_name a) \<noteq> [] then opt_str (identifier_name a)
      else if opt_str (identifier_url a) \<noteq> [] then opt_str (identifier_url a)
      else ''Unknown Identifier'')"

definition initial_state :: "args \<Rightarrow> ostate" where
  "initial_state a =
     \<lparr>identifier_input = input_identifier_str a,
      resolved_doi = JNull,
      paper_title = JStr ''Unknown_Paper'',
      status = ''INITIATED'',
      message = [],
      openalex_api_url_queried = None,
      direct_oa_pdf_url_tried = JNull,
      scihub_page_url_tried = None,
      final_pdf_source_url = None,
      local_filepath = None,
      events = [],
      status_trace = [''INITIATED''],
      final_doi = JNull,
      paper_title_local = JStr ''Unknown_Paper'',
      pdf_content = None,
      actual_download_source_url = None,
      summary_file = []\<rparr>"

text \<open>
  How a part of the function ends: it goes on to the next statement, it returns
  \<open>summary_data\<close>, an exception leaves the function, or \<open>sys.exit\<close> is called.
\<close>

datatype flow = Continue ostate | Return ostate | Raise exn ostate | SysExit int ostate

text \<open>The state in which a part of the function ends.\<close>

fun flow_state :: "flow \<Rightarrow> ostate" where
  "flow_state (Continue st) = st"
| "flow_state (Return st) = st"
| "flow_state (Raise e st) = st"
| "flow_state (SysExit code st) = st"

subsection \<open>Stage 1: metadata and the direct download (lines 493 to 532)\<close>

text \<open>The \<open>except\<close> clauses of the outer \<open>try\<close>, in their order.\<close>

definition stage1_except :: "args \<Rightarrow> exn \<Rightarrow> ostate \<Rightarrow> flow" where
  "stage1_except a e st0 =
     (if isinstance e NotFoundError then
        (let st1 = inner_log ''ERROR''
                     (''Error fetching metadata from OpenAlex: '' @ str_of e @ ''.'') st0;
             st2 = set_status ''FAILURE_OPENALEX_METADATA'' st1
         in if opt_str (identifier_doi a) \<noteq> [] then
              (let doi = opt_str (identifier_doi a);
                   title = py_replace ''.'' ''_'' (py_replace ''/'' ''_'' doi);
                   st3 = st2\<lparr>final_doi := JStr doi, resolved_doi := JStr doi,
                             paper_title_local := JStr title, paper_title := JStr title\<rparr>
               in Continue (inner_log ''INFO'' ''Will attempt Sci-Hub using the provided DOI.'' st3))
            else
              (let st3 = inner_log ''ERROR''
                           ''Could not obtain DOI from OpenAlex to attempt Sci-Hub download.'' st2
               in if \<not> is_batch_mode a then SysExit 1 st3 else Return st3))
      else if isinstance e ValueError then
        (let st1 = inner_log ''ERROR''
                     (''Input error for metadata retrieval: '' @ str_of e) st0;
             st2 = set_status ''FAILURE_INPUT_ERROR'' st1
         in if \<not> is_batch_mode a then SysExit 1 st2 else Return st2)
      else Raise e st0)"

text \<open>
  \<open>download_pdf_content\<close> begins with \<open>pdf_url.split('#')\<close>, which raises AttributeError
  for a value that is not a string.
\<close>

definition download_json :: "env \<Rightarrow> json \<Rightarrow> exn + bytes" where
  "download_json env pdf_url =
     (case pdf_url of
        JStr u \<Rightarrow> download_pdf_content env u None
      | _ \<Rightarrow> Inl (Exn AttributeError ''object has no attribute split''))"

definition stage1 :: "env \<Rightarrow> args \<Rightarrow> ostate \<Rightarrow> flow" where
  "stage1 env a st0 =
     (let st = inner_log ''INFO'' (''Starting process for: '' @ input_identifier_str a) st0 in
      case get_paper_metadata env (identifier_doi a) (identifier_name a) (identifier_url a) of
        Inl e \<Rightarrow> stage1_except a e st
      | Inr (doi, title, direct_pdf_url_from_oa, final_api_url_queried) \<Rightarrow>
          (let st1 = st\<lparr>final_doi := doi, paper_title_local := title,
                         resolved_doi := doi, paper_title := title,
                         openalex_api_url_queried := Some final_api_url_queried,
                         direct_oa_pdf_url_tried := direct_pdf_url_from_oa\<rparr>
           in if truthy direct_pdf_url_from_oa then
                (let st2 = inner_log ''INFO''
                             (''Attempting direct download from OpenAlex URL: ''
                              @ fmt env direct_pdf_url_from_oa) st1
                 in case download_json env direct_pdf_url_from_oa of
                      Inr content \<Rightarrow>
                        (let st3 = inner_log ''SUCCESS''
                                     ''Successfully downloaded PDF from OpenAlex source.''
                                     (st2\<lparr>pdf_content := Some content\<rparr>);
                             st4 = set_status ''SUCCESS'' st3
                         in Continue
                              (st4\<lparr>actual_download_source_url :=
                                      Some (fmt env direct_pdf_url_from_oa)\<rparr>))
                    | Inl e \<Rightarrow>
                        if isinstance e NotFoundError then
                          Continue
                            (set_status ''FAILURE_DIRECT_DOWNLOAD''
                               (inner_log ''WARNING''
                                  (''Direct download from OpenAlex URL failed: '' @ str_of e
                                   @ ''. Will try Sci-Hub if DOI is available.'') st2))
                        else stage1_except a e st2)
              else
                Continue
                  (set_status ''INFO_NO_DIRECT_OA_URL''
                     (inner_log ''INFO'' ''No direct PDF URL found via OpenAlex.'' st1))))"

subsection \<open>Stage 2: the Sci-Hub fallback (lines 534 to 571)\<close>

text \<open>The \<open>except\<close> clauses of the \<open>try\<close>, in their order.\<close>

definition stage2_except :: "exn \<Rightarrow> ostate \<Rightarrow> ostate" where
  "stage2_except e st =
     (if isinstance e NotFoundError then
        inner_log ''ERROR'' (''Sci-Hub download failed: '' @ str_of e)
          (set_status
             (if py_in ''Sci-Hub does not have the document'' (str_of e)
              then ''FAILURE_SCIHUB_NOT_FOUND'' else ''FAILURE_SCIHUB_DOWNLOAD_ERROR'') st)
      else if isinstance e ValueError then
        set_status ''FAILURE_SCIHUB_INPUT_ERROR''
          (inner_log ''ERROR''
             (''Error with Sci-Hub retrieval input (e.g. invalid DOI): '' @ str_of e) st)
      else
        set_status ''FAILURE_SCIHUB_UNEXPECTED_ERROR''
          (inner_log ''CRITICAL_ERROR''
             (''An unexpected error occurred during Sci-Hub Selenium retrieval: '' @ str_of e)
             st))"

text \<open>Lines 540 to 544: the link and the cookies, by the method chosen.\<close>

definition scihub_retrieve ::
  "env \<Rightarrow> args \<Rightarrow> string \<Rightarrow> ostate \<Rightarrow> (exn + string \<times> cookie list option) \<times> ostate" where
  "scihub_retrieve env a doi st =
     (if scihub_retrieval_method a = ''selenium'' then
        (case retrieve_scihub_pdf_link_selenium inner_log env doi (SCI_HUB_URL env) st of
           (r, d, st1) \<Rightarrow> (r, st1))
      else
        (Inl (Exn NotFoundError
                ''Requests-based Sci-Hub method not fully implemented for PDF download.''),
         inner_log ''WARNING''
           ''Requests-based Sci-Hub retrieval selected but not fully implemented for PDF download.''
           st))"

text \<open>Lines 539 to 567: the \<open>try\<close> block and its handlers.\<close>

definition scihub_attempt :: "env \<Rightarrow> args \<Rightarrow> string \<Rightarrow> ostate \<Rightarrow> ostate" where
  "scihub_attempt env a doi st =
     (case scihub_retrieve env a doi st of
        (Inl e, st1) \<Rightarrow> stage2_except e st1
      | (Inr (scihub_pdf_url_retrieved, selenium_cookies), st1) \<Rightarrow>
          if scihub_pdf_url_retrieved \<noteq> [] then
            (let st2 = inner_log ''INFO''
                         (''Found Sci-Hub PDF URL: '' @ scihub_pdf_url_retrieved) st1
             in case download_pdf_content env scihub_pdf_url_retrieved
                       (if scihub_retrieval_method a = ''selenium''
                        then selenium_cookies else None) of
                  Inl e \<Rightarrow> stage2_except e st2
                | Inr content \<Rightarrow>
                    (let st3 = inner_log ''SUCCESS''
                                 ''Successfully downloaded PDF from Sci-Hub.''
                                 (st2\<lparr>pdf_content := Some content\<rparr>);
                         st4 = set_status ''SUCCESS'' st3
                     in st4\<lparr>actual_download_source_url :=
                              Some scihub_pdf_url_retrieved\<rparr>))
          else
            (let st2 = inner_log ''ERROR''
                         ''Sci-Hub retrieval function did not return a PDF URL.'' st1
             in if status st2 \<noteq> ''FAILURE_SCIHUB_NOT_FOUND''
                then set_status ''FAILURE_SCIHUB_NO_URL'' st2 else st2))"

text \<open>
  The stage. \<open>final_doi\<close> is a string whenever it is truthy (\<open>record_doi\<close>,
  \<open>stage1_except\<close>), and the extractor uses it in f-strings only.
\<close>

definition stage2 :: "env \<Rightarrow> args \<Rightarrow> ostate \<Rightarrow> ostate" where
  "stage2 env a st0 =
     (if opt_str (pdf_content st0) = [] \<and> truthy (final_doi st0) then
        (let doi = fmt env (final_doi st0);
             scihub_page_to_try = rstrip ''/'' (SCI_HUB_URL env) @ ''/'' @ doi;
             st = inner_log ''INFO''
                    (''Attempting Sci-Hub fallback for DOI: '' @ doi @ '' using ''
                     @ scihub_retrieval_method a @ '' method.'')
                    (st0\<lparr>scihub_page_url_tried := Some scihub_page_to_try\<rparr>)
         in scihub_attempt env a doi st)
      else if opt_str (pdf_content st0) = [] \<and> \<not> truthy (final_doi st0) then
        (let st = inner_log ''WARNING''
                    ''No PDF downloaded from OpenAlex and no DOI available for Sci-Hub attempt.''
                    st0
         in if status st \<notin> set [''FAILURE_OPENALEX_METADATA'', ''FAILURE_INPUT_ERROR'']
            then set_status ''FAILURE_NO_DOI_FOR_SCIHUB'' st else st)
      else st0)"

subsection \<open>Stage 3: saving the PDF (lines 573 to 607)\<close>

text \<open>
  \<open>open_file_externally\<close> catches every exception and changes nothing of the state, so
  \<open>auto_open_pdf\<close> has no effect here.
\<close>

definition stage3 :: "env \<Rightarrow> args \<Rightarrow> ostate \<Rightarrow> flow" where
  "stage3 env a st00 =
     (let st0 = st00\<lparr>final_pdf_source_url := actual_download_source_url st00\<rparr> in
      if opt_str (pdf_content st0) \<noteq> [] then
        (case sanitize_filename (paper_title_local st0) of
           Inl e \<Rightarrow> Raise e st0
         | Inr filename \<Rightarrow>
             (let made = (if \<not> path_exists env (output_dir a)
                          then Some (makedirs env (output_dir a)) else None);
                  st1 = (case made of
                           None \<Rightarrow> st0
                         | Some None \<Rightarrow>
                             inner_log ''INFO''
                               (''Created output directory: '' @ output_dir a) st0
                         | Some (Some err) \<Rightarrow>
                             inner_log ''ERROR''
                               (''Error creating output directory '' @ output_dir a @ '': ''
                                @ err @ ''. Saving to current directory instead.'') st0);
                  dir = (case made of Some (Some err) \<Rightarrow> ''.'' | _ \<Rightarrow> output_dir a);
                  output_filepath = path_join env dir filename;
                  st2 = st1\<lparr>local_filepath := Some output_filepath\<rparr>
              in case write_file env output_filepath (opt_str (pdf_content st0)) of
                   None \<Rightarrow>
                     (let st3 = inner_log ''SUCCESS''
                                  (''PDF successfully saved to: '' @ output_filepath) st2;
                          st4 = set_status ''SUCCESS'' st3
                      in Continue
                           (st4\<lparr>message := ''PDF successfully saved to: '' @ output_filepath\<rparr>))
                 | Some err \<Rightarrow>
                     (let st3 = inner_log ''ERROR''
                                  (''Error saving PDF to '' @ output_filepath @ '': '' @ err) st2;
                          st4 = (set_status ''FAILURE_SAVE_PDF'' st3)\<lparr>local_filepath := None\<rparr>
                      in if \<not> is_batch_mode a then SysExit 1 st4 else Continue st4)))
      else
        (let st1 = (if status st0 \<notin> set [''SUCCESS'', ''FAILURE_OPENALEX_METADATA'',
                                          ''FAILURE_INPUT_ERROR'', ''FAILURE_SCIHUB_NOT_FOUND'',
                                          ''FAILURE_NO_DOI_FOR_SCIHUB'']
                    then set_status ''FAILURE_NO_PDF_CONTENT'' st0 else st0);
             st2 = inner_log ''FAILURE''
                     (''Ultimately failed to download PDF for identifier: ''
                      @ input_identifier_str a @ ''.'') st1
         in if \<not> is_batch_mode a then SysExit 1 st2 else Continue st2))"

subsection \<open>The end of the call (lines 609 to 616), and the whole function\<close>

definition finish :: "args \<Rightarrow> ostate \<Rightarrow> ostate" where
  "finish a st =
     (if opt_str (summary_file_path a) \<noteq> [] then
        (let final_status_str = (if status st = ''SUCCESS'' then ''SUCCESS'' else ''FAILURE'');
             reason_message = (if final_status_str = ''FAILURE'' then Some (message st) else None)
         in st\<lparr>summary_file := summary_file st
                  @ update_simplified_summary (input_identifier_str a) final_status_str
                      reason_message\<rparr>)
      else st)"

definition run :: "env \<Rightarrow> args \<Rightarrow> flow" where
  "run env a =
     (case stage1 env a (initial_state a) of
        Continue st1 \<Rightarrow>
          (case stage3 env a (stage2 env a st1) of
             Continue st3 \<Rightarrow> Return (finish a st3)
           | other \<Rightarrow> other)
      | other \<Rightarrow> other)"

text \<open>What the caller of \<open>doi_to_pdf_downloader\<close> sees.\<close>

datatype result = Returned summary | Raised exn | Exited int

definition doi_to_pdf_downloader :: "env \<Rightarrow> args \<Rightarrow> result" where
  "doi_to_pdf_downloader env a =
     (case run env a of
        Continue st \<Rightarrow> Returned (summary.truncate st)
      | Return st \<Rightarrow> Returned (summary.truncate st)
      | Raise e st \<Rightarrow> Raised e
      | SysExit code st \<Rightarrow> Exited code)"

section \<open>Batch Runner: the batch branch of \<open>main\<close> (lines 702 to 746)\<close>







section \<open>Concrete worlds\<close>

text \<open>
  A world in which nothing is reachable: every request fails, Chrome does not start, the
  output directory exists and files can be written.
\<close>

definition no_browser :: browser_script where
  "no_browser =
     \<lparr>chrome_start = Some (Exn WebDriverException ''chrome not reachable''),
      page_load = None,
      unavailable_text = Some (Exn TimeoutException ''timeout''),
      pdf_element = Inl (Exn TimeoutException ''timeout''),
      iframes = Inr [],
      session_cookies = Inr [],
      quit_result = None\<rparr>"

definition offline :: env where
  "offline =
     \<lparr>SCI_HUB_URL = ''https://sci-hub.mksa.top/'',
      openalex_get = (\<lambda>u p. ApiFailed ''404 Client Error''),
      pdf_get = (\<lambda>u c. RequestFailed ''404 Client Error''),
      browser = (\<lambda>u. no_browser),
      urljoin = (\<lambda>b u. b @ u),
      py_format = (\<lambda>v. ''None''),
      path_exists = (\<lambda>p. True),
      makedirs = (\<lambda>p. None),
      path_join = (\<lambda>d f. d @ ''/'' @ f),
      write_file = (\<lambda>p b. None)\<rparr>"

text \<open>A server that answers every download with the given content type and body.\<close>

definition serving :: "string option \<Rightarrow> bytes \<Rightarrow> env" where
  "serving ct body = offline\<lparr>pdf_get := (\<lambda>u c. Response ct body)\<rparr>"

text \<open>An OpenAlex that answers every query with the given JSON value.\<close>

definition answering :: "json \<Rightarrow> env \<Rightarrow> env" where
  "answering v env = env\<lparr>openalex_get := (\<lambda>u p. ApiJson v)\<rparr>"





text \<open>Arguments of a call for a DOI, a title or nothing, in batch mode or not.\<close>

definition call :: "string option \<Rightarrow> string option \<Rightarrow> bool \<Rightarrow> args" where
  "call doi name batch =
     \<lparr>identifier_doi = doi,
      identifier_name = name,
      identifier_url = None,
      output_dir = ''out'',
      auto_open_pdf = False,
      is_batch_mode = batch,
      log_file_path = None,
      scihub_retrieval_method = ''selenium'',
      summary_file_path = None\<rparr>"

text \<open>An OpenAlex record with an open-access URL.\<close>

definition oa_record :: "string \<Rightarrow> json" where
  "oa_record u =
     JObj [(''doi'', JStr ''https://doi.org/10.1000/xyz1''),
           (''display_name'', JStr ''A Paper''),
           (''open_access'', JObj [(''oa_url'', JStr u)])]"

text \<open>
  An OpenAlex record whose primary location is not open access and whose best
  open-access location has a PDF URL, with no open-access URL.
\<close>

definition closed_primary_record :: json where
  "closed_primary_record =
     JObj [(''doi'', JStr ''https://doi.org/10.1000/xyz3''),
           (''display_name'', JStr ''A Third Paper''),
           (''open_access'', JObj [(''is_oa'', JBool True), (''oa_url'', JNull)]),
           (''primary_location'',
              JObj [(''is_oa'', JBool False),
                    (''landing_page_url'', JStr ''https://journal.example/article/3'')]),
           (''best_oa_location'',
              JObj [(''pdf_url'', JStr ''https://repo.example/3.pdf''),
                    (''landing_page_url'', JStr ''https://repo.example/3'')])]"

section \<open>Reading a record\<close>

text \<open>
  The field \<open>outer.inner\<close> of a record, as the specification names the fields of the
  service's answer: \<open>None\<close> when the record or the outer value is not a dict or a key
  is missing.
\<close>

definition field_of :: "json \<Rightarrow> string \<Rightarrow> string \<Rightarrow> json" where
  "field_of metadata outer inner =
     (case metadata of
        JObj kvs \<Rightarrow>
          (case map_of kvs outer of
             Some (JObj d) \<Rightarrow> (case map_of d inner of Some v \<Rightarrow> v | None \<Rightarrow> JNull)
           | _ \<Rightarrow> JNull)
      | _ \<Rightarrow> JNull)"

text \<open>The key is missing from the record, or holds \<open>None\<close> or a dict.\<close>

definition dict_or_none :: "json \<Rightarrow> string \<Rightarrow> bool" where
  "dict_or_none metadata k =
     (case metadata of
        JObj kvs \<Rightarrow>
          (case map_of kvs k of
             None \<Rightarrow> True
           | Some JNull \<Rightarrow> True
           | Some (JObj d) \<Rightarrow> True
           | Some v \<Rightarrow> False)
      | _ \<Rightarrow> False)"

text \<open>The summary a call returned, if it returned.\<close>

definition returned :: "result \<Rightarrow> summary option" where
  "returned r = (case r of Returned s \<Rightarrow> Some s | _ \<Rightarrow> None)"

section \<open>Properties of the Content Fetcher\<close>

lemma py_in_map: "py_in p s \<Longrightarrow> py_in (map f p) (map f s)"
proof (induction s)
  case Nil
  then show ?case by simp
next
  case (Cons c cs)
  show ?case
  proof (cases "startswith p (c # cs)")
    case True
    then have "take (length p) (map f (c # cs)) = map f p"
      unfolding startswith_def by (metis take_map)
    then show ?thesis by (simp add: startswith_def)
  next
    case False
    with Cons show ?thesis by simp
  qed
qed

lemma lower_pdf: "lower ''application/pdf'' = ''application/pdf''"
  by (simp add: lower_def lower_char_def)

lemma lower_octet: "lower ''octet-stream'' = ''octet-stream''"
  by (simp add: lower_def lower_char_def)

lemma recognised_lower: "recognised_type ct \<Longrightarrow> recognised_type (lower ct)"
  unfolding recognised_type_def
  using py_in_map [of "''application/pdf''" ct lower_char]
        py_in_map [of "''octet-stream''" ct lower_char]
        lower_pdf lower_octet
  unfolding lower_def by auto



text \<open>
  C9. When the declared content type contains \<open>application/pdf\<close> or \<open>octet-stream\<close>, a
  body that is not empty is returned as it is; the signature is not looked at, so a body
  that is not a PDF is returned too.
\<close>

theorem recognised_type_skips_signature:
  assumes "pdf_get env (strip_fragment url) (cookie_jar_of cookies) = Response (Some ct) body"
    and "py_in ''application/pdf'' ct \<or> py_in ''octet-stream'' ct"
    and "body \<noteq> []"
  shows "download_pdf_content env url cookies = Inr body"
proof -
  have "recognised_type (content_type_of (Some ct))"
    using assms(2) recognised_lower [of ct]
    by (simp add: content_type_of_def recognised_type_def)
  with assms(1,3) show ?thesis
    by (simp add: download_pdf_content_def Let_def)
qed

theorem recognised_type_skips_signature_witness:
  "download_pdf_content (serving (Some ''application/pdf'') ''<html>not a pdf</html>'')
     ''https://host.example/a'' None = Inr ''<html>not a pdf</html>''
   \<and> \<not> startswith ''%PDF-'' ''<html>not a pdf</html>''"
proof -
  have r: "pdf_get (serving (Some ''application/pdf'') ''<html>not a pdf</html>'')
              (strip_fragment ''https://host.example/a'') (cookie_jar_of None)
            = Response (Some ''application/pdf'') ''<html>not a pdf</html>''"
    by (simp add: serving_def)
  have c: "py_in ''application/pdf'' ''application/pdf''
           \<or> py_in ''octet-stream'' ''application/pdf''"
    by (simp add: startswith_def)
  show ?thesis
    using recognised_type_skips_signature [OF r c] by (simp add: startswith_def)
qed

section \<open>Properties of the Metadata Resolver\<close>

subsection \<open>The arXiv correction\<close>





lemma arxiv_correction_total: "\<exists>s'. arxiv_correction (JStr s) = Inr (JStr s')"
  by (simp add: arxiv_correction_def and_then_def split: option.splits)







subsection \<open>The candidate URL\<close>

text \<open>
  C4, as the code has it. For a record that is a dict: a truthy \<open>open_access.oa_url\<close> is
  the candidate, whatever the other fields hold. When \<open>open_access\<close>,
  \<open>primary_location\<close> and \<open>best_oa_location\<close> each are missing, \<open>None\<close> or a dict, the
  candidate is \<open>open_access.oa_url\<close> if truthy; otherwise \<open>best_oa_location.pdf_url\<close>
  if that is truthy and \<open>primary_location.is_oa\<close> is truthy too; otherwise there is no
  candidate (the falsy \<open>oa_url\<close>). The candidate is a function of these three fields
  alone: no \<open>landing_page_url\<close> is ever selected.
\<close>

theorem candidate_priority:
  "(truthy (field_of (JObj kvs) ''open_access'' ''oa_url'') \<longrightarrow>
      select_pdf_url (JObj kvs) = Inr (field_of (JObj kvs) ''open_access'' ''oa_url''))
   \<and> (dict_or_none (JObj kvs) ''open_access'' \<and> dict_or_none (JObj kvs) ''primary_location''
        \<and> dict_or_none (JObj kvs) ''best_oa_location'' \<longrightarrow>
      select_pdf_url (JObj kvs) =
        Inr (if truthy (field_of (JObj kvs) ''open_access'' ''oa_url'')
             then field_of (JObj kvs) ''open_access'' ''oa_url''
             else if truthy (field_of (JObj kvs) ''primary_location'' ''is_oa'')
                     \<and> truthy (field_of (JObj kvs) ''best_oa_location'' ''pdf_url'')
             then field_of (JObj kvs) ''best_oa_location'' ''pdf_url''
             else field_of (JObj kvs) ''open_access'' ''oa_url''))"
proof -
  have A: "truthy (field_of (JObj kvs) ''open_access'' ''oa_url'') \<Longrightarrow>
      select_pdf_url (JObj kvs) = Inr (field_of (JObj kvs) ''open_access'' ''oa_url'')"
    by (auto simp: select_pdf_url_def and_then_def field_of_def
             split: option.splits json.splits)
  have B: "dict_or_none (JObj kvs) ''open_access''
        \<Longrightarrow> dict_or_none (JObj kvs) ''primary_location''
        \<Longrightarrow> dict_or_none (JObj kvs) ''best_oa_location'' \<Longrightarrow>
      select_pdf_url (JObj kvs) =
        Inr (if truthy (field_of (JObj kvs) ''open_access'' ''oa_url'')
             then field_of (JObj kvs) ''open_access'' ''oa_url''
             else if truthy (field_of (JObj kvs) ''primary_location'' ''is_oa'')
                     \<and> truthy (field_of (JObj kvs) ''best_oa_location'' ''pdf_url'')
             then field_of (JObj kvs) ''best_oa_location'' ''pdf_url''
             else field_of (JObj kvs) ''open_access'' ''oa_url'')"
    by (auto simp: select_pdf_url_def and_then_def field_of_def dict_or_none_def
             split: option.splits json.splits)
  from A B show ?thesis by blast
qed

text \<open>
  A record with an open-access URL and one whose open-access primary location comes
  with a best location's PDF URL.
\<close>

theorem candidate_priority_witness:
  "select_pdf_url (oa_record ''https://good.example/paper.pdf'')
     = Inr (JStr ''https://good.example/paper.pdf'')
   \<and> select_pdf_url
        (JObj [(''primary_location'', JObj [(''is_oa'', JBool True)]),
               (''best_oa_location'', JObj [(''pdf_url'', JStr ''https://repo.example/3.pdf'')])])
     = Inr (JStr ''https://repo.example/3.pdf'')"
proof -
  have a: "truthy (field_of (oa_record ''https://good.example/paper.pdf'')
                     ''open_access'' ''oa_url'')"
    by (simp add: field_of_def oa_record_def)
  have b: "dict_or_none
             (JObj [(''primary_location'', JObj [(''is_oa'', JBool True)]),
                    (''best_oa_location'',
                       JObj [(''pdf_url'', JStr ''https://repo.example/3.pdf'')])]) k"
    if "k \<in> {''open_access'', ''primary_location'', ''best_oa_location''}" for k
    using that by (auto simp: dict_or_none_def)
  from candidate_priority
         [of "[(''doi'', JStr ''https://doi.org/10.1000/xyz1''),
               (''display_name'', JStr ''A Paper''),
               (''open_access'', JObj [(''oa_url'', JStr ''https://good.example/paper.pdf'')])]"]
       a
  have 1: "select_pdf_url (oa_record ''https://good.example/paper.pdf'')
           = Inr (JStr ''https://good.example/paper.pdf'')"
    by (simp add: oa_record_def field_of_def)
  from candidate_priority
         [of "[(''primary_location'', JObj [(''is_oa'', JBool True)]),
               (''best_oa_location'',
                  JObj [(''pdf_url'', JStr ''https://repo.example/3.pdf'')])]"]
       b
  have 2: "select_pdf_url
        (JObj [(''primary_location'', JObj [(''is_oa'', JBool True)]),
               (''best_oa_location'', JObj [(''pdf_url'', JStr ''https://repo.example/3.pdf'')])])
     = Inr (JStr ''https://repo.example/3.pdf'')"
    by (simp add: field_of_def)
  from 1 2 show ?thesis by simp
qed

text \<open>
  The claim as the specification states it fails: this record has no open-access URL
  and a best location with a PDF URL, and no candidate is selected, because its primary
  location is not open access.
\<close>

theorem candidate_priority_counterexample:
  "field_of closed_primary_record ''open_access'' ''oa_url'' = JNull
   \<and> field_of closed_primary_record ''best_oa_location'' ''pdf_url''
       = JStr ''https://repo.example/3.pdf''
   \<and> select_pdf_url closed_primary_record = Inr JNull
   \<and> get_paper_metadata (answering closed_primary_record offline)
        (Some ''10.1000/xyz3'') None None
     = Inr (JStr ''10.1000/xyz3'', JStr ''A Third Paper'', JNull,
            ''https://api.openalex.org/works/https://doi.org/10.1000/xyz3'')"
  by code_simp

section \<open>Properties of the Rendered-Page Extractor\<close>

subsection \<open>What the log function keeps, the extractor keeps\<close>

lemma scan_iframes_inv:
  assumes "\<And>l m s. P s \<Longrightarrow> P (log_func l m s)" "P st"
  shows "P (snd (scan_iframes log_func frames st))"
  using assms(2)
proof (induction frames arbitrary: st)
  case Nil
  then show ?case by simp
next
  case (Cons f fs)
  then show ?case
    by (cases f) (auto simp: assms(1))
qed

lemma check_unavailable_inv:
  assumes "\<And>l m s. P s \<Longrightarrow> P (log_func l m s)" "P st"
  shows "P (snd (check_unavailable log_func b doi st))"
  using assms by (auto simp: check_unavailable_def split: option.splits)

lemma locate_pdf_src_inv:
  assumes "\<And>l m s. P s \<Longrightarrow> P (log_func l m s)" "P st"
  shows "P (snd (locate_pdf_src log_func b st))"
proof -
  have s: "P (snd (scan_iframes log_func frames st'))" if "P st'" for frames st'
    by (rule scan_iframes_inv [where P = P]) (simp_all add: assms(1) that)
  show ?thesis
    using assms s by (auto simp: locate_pdf_src_def Let_def split: sum.splits)
qed

lemma session_body_inv:
  assumes "\<And>l m s. P s \<Longrightarrow> P (log_func l m s)" "P st"
  shows "P (snd (session_body log_func env b doi url st))"
proof (cases "page_load b")
  case (Some e)
  then show ?thesis using assms(2) by (simp add: session_body_def)
next
  case None
  obtain r1 st1 where c1: "check_unavailable log_func b doi st = (r1, st1)"
    by (cases "check_unavailable log_func b doi st")
  have "P (snd (check_unavailable log_func b doi st))"
    by (rule check_unavailable_inv [where P = P]) (simp_all add: assms)
  with c1 have p1: "P st1" by simp
  obtain r2 st2 where l2: "locate_pdf_src log_func b st1 = (r2, st2)"
    by (cases "locate_pdf_src log_func b st1")
  have "P (snd (locate_pdf_src log_func b st1))"
    by (rule locate_pdf_src_inv [where P = P]) (simp_all add: assms(1) p1)
  with l2 have p2: "P st2" by simp
  from None c1 l2 p1 p2 assms(1) show ?thesis
    by (auto simp: session_body_def Let_def split: option.splits sum.splits)
qed

lemma translate_error_inv:
  assumes "\<And>l m s. P s \<Longrightarrow> P (log_func l m s)" "P (snd x)"
  shows "P (snd (translate_error log_func x))"
  using assms by (cases x) (auto simp: translate_error_def split: sum.splits)

lemma release_inv:
  assumes "\<And>l m s. P s \<Longrightarrow> P (log_func l m s)" "P st"
  shows "P (snd (release log_func b d st))"
  using assms by (auto simp: release_def Let_def split: prod.splits option.splits)

lemma retrieve_inv:
  assumes "\<And>l m s. P s \<Longrightarrow> P (log_func l m s)" "P st"
  shows "P (snd (snd (retrieve_scihub_pdf_link_selenium log_func env doi url st)))"
proof (cases "doi = []")
  case True
  then show ?thesis using assms by (simp add: retrieve_scihub_pdf_link_selenium_def)
next
  case False
  define b where "b = browser env (rstrip ''/'' url @ ''/'' @ doi)"
  define st0 where "st0 = log_func ''INFO''
              (''[Selenium] Attempting to retrieve PDF link from Sci-Hub page: ''
               @ rstrip ''/'' url @ ''/'' @ doi) st"
  have p0: "P st0" using assms by (simp add: st0_def)
  show ?thesis
  proof (cases "chrome_start b")
    case (Some e)
    have "P (snd (translate_error log_func (Inl e :: exn + string \<times> cookie list option, st0)))"
      by (rule translate_error_inv [where P = P]) (simp_all add: assms(1) p0)
    with False Some show ?thesis
      unfolding retrieve_scihub_pdf_link_selenium_def Let_def b_def [symmetric]
        st0_def [symmetric]
      by (auto split: prod.splits)
  next
    case None
    have "P (snd (session_body log_func env b doi url st0))"
      by (rule session_body_inv [where P = P]) (simp_all add: assms(1) p0)
    then have "P (snd (translate_error log_func (session_body log_func env b doi url st0)))"
      by (intro translate_error_inv [where P = P]) (simp_all add: assms(1))
    then have "P (snd (release log_func b new_driver
                 (snd (translate_error log_func (session_body log_func env b doi url st0)))))"
      by (intro release_inv [where P = P]) (simp_all add: assms(1))
    with False None show ?thesis
      unfolding retrieve_scihub_pdf_link_selenium_def Let_def b_def [symmetric]
        st0_def [symmetric]
      by (auto split: prod.splits)
  qed
qed

subsection \<open>The release of the session\<close>











section \<open>Properties of the Retrieval Orchestrator\<close>

subsection \<open>What logging and the fallback leave unchanged\<close>

lemma set_status_fields [simp]:
  "status (set_status v st) = v"
  "status_trace (set_status v st) = status_trace st @ [v]"
  "events (set_status v st) = events st"
  "message (set_status v st) = message st"
  "final_doi (set_status v st) = final_doi st"
  "resolved_doi (set_status v st) = resolved_doi st"
  "paper_title (set_status v st) = paper_title st"
  "paper_title_local (set_status v st) = paper_title_local st"
  "pdf_content (set_status v st) = pdf_content st"
  "scihub_page_url_tried (set_status v st) = scihub_page_url_tried st"
  "actual_download_source_url (set_status v st) = actual_download_source_url st"
  "local_filepath (set_status v st) = local_filepath st"
  by (simp_all add: set_status_def)

lemma inner_log_fields [simp]:
  "events (inner_log l m st) = events st @ [(l, m)]"
  "final_doi (inner_log l m st) = final_doi st"
  "resolved_doi (inner_log l m st) = resolved_doi st"
  "paper_title (inner_log l m st) = paper_title st"
  "paper_title_local (inner_log l m st) = paper_title_local st"
  "pdf_content (inner_log l m st) = pdf_content st"
  "scihub_page_url_tried (inner_log l m st) = scihub_page_url_tried st"
  "actual_download_source_url (inner_log l m st) = actual_download_source_url st"
  "local_filepath (inner_log l m st) = local_filepath st"
  by (simp_all add: inner_log_def Let_def)

lemma inner_log_status:
  "status (inner_log l m st)
   = (if l \<in> set [''SUCCESS'', ''FAILURE'', ''ERROR'', ''CRITICAL_ERROR'', ''WARNING'']
         \<and> status st \<noteq> ''SUCCESS'' then l else status st)"
  by (simp add: inner_log_def Let_def)


lemma inner_log_trace_mono:
  "set (status_trace st) \<subseteq> set (status_trace (inner_log l m st))"
  by (auto simp: inner_log_def Let_def set_status_def)

lemma download_only_not_found:
  "download_pdf_content env u c = Inl e \<Longrightarrow> isinstance e NotFoundError"
  by (auto simp: download_pdf_content_def Let_def isinstance_def
      split: http_outcome.splits if_splits)

lemma sanitize_ok:
  "\<not> truthy t \<or> (\<exists>s. t = JStr s) \<Longrightarrow> \<exists>f. sanitize_filename t = Inr f"
  by (auto simp: sanitize_filename_def Let_def)

lemma scihub_retrieve_inv:
  assumes "\<And>l m s. P s \<Longrightarrow> P (inner_log l m s)" "P st"
  shows "P (snd (scihub_retrieve env a doi st))"
proof (cases "scihub_retrieval_method a = ''selenium''")
  case True
  have "P (snd (snd (retrieve_scihub_pdf_link_selenium inner_log env doi (SCI_HUB_URL env) st)))"
    by (rule retrieve_inv [where P = P]) (simp_all add: assms)
  with True show ?thesis by (auto simp: scihub_retrieve_def split: prod.splits)
next
  case False
  then show ?thesis using assms by (simp add: scihub_retrieve_def)
qed

lemma stage2_except_inv:
  assumes "\<And>l m s. P s \<Longrightarrow> P (inner_log l m s)" "\<And>v s. P s \<Longrightarrow> P (set_status v s)" "P st"
  shows "P (stage2_except e st)"
  using assms by (simp add: stage2_except_def)

lemma scihub_attempt_inv:
  assumes log: "\<And>l m s. P s \<Longrightarrow> P (inner_log l m s)"
    and sts: "\<And>v s. P s \<Longrightarrow> P (set_status v s)"
    and pc: "\<And>v s. P s \<Longrightarrow> P (s\<lparr>pdf_content := v\<rparr>)"
    and ac: "\<And>v s. P s \<Longrightarrow> P (s\<lparr>actual_download_source_url := v\<rparr>)"
    and st: "P st"
  shows "P (scihub_attempt env a doi st)"
proof -
  obtain r st1 where r: "scihub_retrieve env a doi st = (r, st1)"
    by (cases "scihub_retrieve env a doi st")
  have "P (snd (scihub_retrieve env a doi st))"
    by (rule scihub_retrieve_inv [where P = P]) (simp_all add: log st)
  with r have p1: "P st1" by simp
  have ex: "P (stage2_except e s)" if "P s" for e s
    by (rule stage2_except_inv [where P = P]) (simp_all add: log sts that)
  show ?thesis
    unfolding scihub_attempt_def r
    using p1 ex log sts pc ac
    by (auto simp: Let_def split: sum.splits prod.splits)
qed

lemma stage2_inv:
  assumes log: "\<And>l m s. P s \<Longrightarrow> P (inner_log l m s)"
    and sts: "\<And>v s. P s \<Longrightarrow> P (set_status v s)"
    and pc: "\<And>v s. P s \<Longrightarrow> P (s\<lparr>pdf_content := v\<rparr>)"
    and ac: "\<And>v s. P s \<Longrightarrow> P (s\<lparr>actual_download_source_url := v\<rparr>)"
    and pg: "\<And>v s. P s \<Longrightarrow> P (s\<lparr>scihub_page_url_tried := v\<rparr>)"
    and st: "P st"
  shows "P (stage2 env a st)"
proof -
  have at: "P (scihub_attempt env a doi s)" if "P s" for doi s
    by (rule scihub_attempt_inv [where P = P]) (simp_all add: log sts pc ac that)
  show ?thesis
    unfolding stage2_def using at log sts pg st by (auto simp: Let_def)
qed

lemma stage2_title: "paper_title_local (stage2 env a st) = paper_title_local st"
  by (rule stage2_inv [where P = "\<lambda>s. paper_title_local s = paper_title_local st"]) simp_all

subsection \<open>The stages\<close>

lemma stage3_ends:
  assumes "sanitize_filename (paper_title_local st) = Inr f"
  shows "(is_batch_mode a \<longrightarrow>
            (\<exists>st'. stage3 env a st = Continue st'
                   \<and> status st' \<in> set [''SUCCESS'', ''FAILURE_SAVE_PDF'', ''FAILURE'']))
         \<and> (\<not> is_batch_mode a \<longrightarrow>
            (\<exists>st'. stage3 env a st = Continue st' \<and> status st' = ''SUCCESS'')
            \<or> (\<exists>st'. stage3 env a st = SysExit 1 st'))"
  using assms
  by (auto simp: stage3_def Let_def inner_log_status split: option.splits)



lemma finish_status [simp]: "status (finish a st) = status st"
  by (simp add: finish_def Let_def)

lemma stage1_not_found_doi:
  assumes "get_paper_metadata env (identifier_doi a) (identifier_name a) (identifier_url a) = Inl e"
    and "isinstance e NotFoundError"
    and "opt_str (identifier_doi a) \<noteq> []"
  shows "\<exists>st. stage1 env a st0 = Continue st
           \<and> status st = ''FAILURE_OPENALEX_METADATA''
           \<and> final_doi st = JStr (opt_str (identifier_doi a))
           \<and> resolved_doi st = JStr (opt_str (identifier_doi a))
           \<and> paper_title st
               = JStr (py_replace ''.'' ''_'' (py_replace ''/'' ''_'' (opt_str (identifier_doi a))))
           \<and> paper_title_local st = paper_title st
           \<and> pdf_content st = pdf_content st0
           \<and> scihub_page_url_tried st = scihub_page_url_tried st0"
  using assms
  by (simp add: stage1_def stage1_except_def Let_def inner_log_status)

lemma stage1_not_found_other:
  assumes "get_paper_metadata env (identifier_doi a) (identifier_name a) (identifier_url a) = Inl e"
    and "isinstance e NotFoundError"
    and "opt_str (identifier_doi a) = []"
  shows "\<exists>st. stage1 env a st0 = (if is_batch_mode a then Return st else SysExit 1 st)
           \<and> ''FAILURE_OPENALEX_METADATA'' \<in> set (status_trace st)
           \<and> status st = ''ERROR''
           \<and> scihub_page_url_tried st = scihub_page_url_tried st0
           \<and> map fst (events st) = map fst (events st0) @ [''INFO'', ''ERROR'', ''ERROR'']"
  using assms
  by (simp add: stage1_def stage1_except_def Let_def inner_log_status inner_log_def set_status_def)

lemma stage1_found:
  assumes "get_paper_metadata env (identifier_doi a) (identifier_name a) (identifier_url a)
           = Inr (doi, title, url, q)"
    and "stage1 env a st0 = Continue st"
  shows "final_doi st = doi \<and> resolved_doi st = doi \<and> paper_title_local st = title"
  using assms
  by (auto simp: stage1_def stage1_except_def Let_def split: sum.splits if_splits)

lemma download_json_typed:
  "download_json env (JStr u) = Inl e \<Longrightarrow> isinstance e NotFoundError"
  by (auto simp: download_json_def dest: download_only_not_found)

lemma stage1_typed:
  assumes err: "\<And>e. get_paper_metadata env (identifier_doi a) (identifier_name a)
                       (identifier_url a) = Inl e
                 \<Longrightarrow> isinstance e NotFoundError \<or> isinstance e ValueError"
    and tys: "\<And>doi title url q. get_paper_metadata env (identifier_doi a) (identifier_name a)
                       (identifier_url a) = Inr (doi, title, url, q)
                 \<Longrightarrow> (truthy url \<longrightarrow> (\<exists>u. url = JStr u)) \<and> (truthy title \<longrightarrow> (\<exists>t. title = JStr t))"
  shows "(\<exists>st f. stage1 env a st0 = Continue st \<and> sanitize_filename (paper_title_local st) = Inr f)
         \<or> (\<exists>st. stage1 env a st0 = (if is_batch_mode a then Return st else SysExit 1 st)
                 \<and> status st \<in> set [''ERROR'', ''FAILURE_INPUT_ERROR''])"
proof (cases "get_paper_metadata env (identifier_doi a) (identifier_name a) (identifier_url a)")
  case (Inl e)
  show ?thesis
  proof (cases "isinstance e NotFoundError")
    case True
    show ?thesis
    proof (cases "opt_str (identifier_doi a) = []")
      case True
      from stage1_not_found_other [OF Inl \<open>isinstance e NotFoundError\<close> True, of st0]
      show ?thesis by auto
    next
      case False
      from stage1_not_found_doi [OF Inl \<open>isinstance e NotFoundError\<close> False, of st0]
      obtain st where st: "stage1 env a st0 = Continue st"
        "paper_title_local st = JStr (py_replace ''.'' ''_'' (py_replace ''/'' ''_'' (opt_str (identifier_doi a))))"
        by auto
      from sanitize_ok [of "paper_title_local st"] st(2)
      obtain f where "sanitize_filename (paper_title_local st) = Inr f" by auto
      with st(1) show ?thesis by blast
    qed
  next
    case False
    with err [OF Inl] have "isinstance e ValueError" by simp
    with False Inl show ?thesis
      by (simp add: stage1_def stage1_except_def Let_def)
  qed
next
  case (Inr t)
  obtain doi title url q where t: "t = (doi, title, url, q)" by (cases t) auto
  from tys [OF Inr [unfolded t]] have ty: "truthy url \<longrightarrow> (\<exists>u. url = JStr u)"
    "truthy title \<longrightarrow> (\<exists>t. title = JStr t)" by auto
  from sanitize_ok [of title] ty(2) obtain f where f: "sanitize_filename title = Inr f" by auto
  have "\<exists>st. stage1 env a st0 = Continue st \<and> paper_title_local st = title"
  proof (cases "truthy url")
    case False
    with Inr t show ?thesis by (simp add: stage1_def Let_def)
  next
    case True
    with ty obtain u where u: "url = JStr u" by auto
    show ?thesis
    proof (cases "download_json env (JStr u)")
      case (Inl e)
      from download_json_typed [OF Inl] Inl Inr t u True show ?thesis
        by (simp add: stage1_def Let_def)
    next
      case (Inr content)
      with \<open>get_paper_metadata env (identifier_doi a) (identifier_name a) (identifier_url a) = Inr t\<close>
        t u True show ?thesis
        by (simp add: stage1_def Let_def)
    qed
  qed
  with f show ?thesis by auto
qed

lemma truncate_status [simp]: "status (summary.truncate st) = status st"
  by (simp add: summary.truncate_def)

lemma stage2_fallback:
  assumes "opt_str (pdf_content st) = []" and "final_doi st = JStr d" and "d \<noteq> []"
  shows "stage2 env a st
         = scihub_attempt env a d
             (inner_log ''INFO''
                (''Attempting Sci-Hub fallback for DOI: '' @ d @ '' using ''
                 @ scihub_retrieval_method a @ '' method.'')
                (st\<lparr>scihub_page_url_tried := Some (rstrip ''/'' (SCI_HUB_URL env) @ ''/'' @ d)\<rparr>))"
  using assms by (simp add: stage2_def Let_def)

lemma scihub_attempt_keeps_page:
  assumes "scihub_page_url_tried st = Some p"
  shows "scihub_page_url_tried (scihub_attempt env a d st) = Some p"
  by (rule scihub_attempt_inv [where P = "\<lambda>s. scihub_page_url_tried s = Some p"])
     (simp_all add: assms)

subsection \<open>The result of a call\<close>

text \<open>
  C1, as the code has it. Suppose the Metadata Resolver raises nothing but NotFoundError
  and ValueError, and the title and the candidate URL it returns are strings or falsy.
  Then in batch mode the call returns a summary whose status is \<open>SUCCESS\<close>, \<open>FAILURE\<close>,
  \<open>ERROR\<close>, \<open>FAILURE_INPUT_ERROR\<close> or \<open>FAILURE_SAVE_PDF\<close>, never \<open>INITIATED\<close> or another
  intermediate value. Outside batch mode the call returns a summary with status
  \<open>SUCCESS\<close> or ends the process with \<open>sys.exit(1)\<close>.
\<close>

theorem returns_in_batch_mode:
  assumes err: "\<And>e. get_paper_metadata env (identifier_doi a) (identifier_name a)
                       (identifier_url a) = Inl e
                 \<Longrightarrow> isinstance e NotFoundError \<or> isinstance e ValueError"
    and tys: "\<And>doi title url q. get_paper_metadata env (identifier_doi a) (identifier_name a)
                       (identifier_url a) = Inr (doi, title, url, q)
                 \<Longrightarrow> (truthy url \<longrightarrow> (\<exists>u. url = JStr u)) \<and> (truthy title \<longrightarrow> (\<exists>t. title = JStr t))"
  shows "(is_batch_mode a \<longrightarrow>
            (\<exists>s. doi_to_pdf_downloader env a = Returned s
                 \<and> status s \<in> set [''SUCCESS'', ''FAILURE'', ''ERROR'', ''FAILURE_INPUT_ERROR'',
                                    ''FAILURE_SAVE_PDF'']))
         \<and> (\<not> is_batch_mode a \<longrightarrow>
            (\<exists>s. doi_to_pdf_downloader env a = Returned s \<and> status s = ''SUCCESS'')
            \<or> doi_to_pdf_downloader env a = Exited 1)"
proof -
  have "(\<exists>st f. stage1 env a (initial_state a) = Continue st
                 \<and> sanitize_filename (paper_title_local st) = Inr f)
         \<or> (\<exists>st. stage1 env a (initial_state a)
                     = (if is_batch_mode a then Return st else SysExit 1 st)
                 \<and> status st \<in> set [''ERROR'', ''FAILURE_INPUT_ERROR''])"
    by (rule stage1_typed) (rule err, assumption, rule tys, assumption)
  then consider
    (go) st f where "stage1 env a (initial_state a) = Continue st"
      "sanitize_filename (paper_title_local st) = Inr f"
  | (stop) st where
      "stage1 env a (initial_state a) = (if is_batch_mode a then Return st else SysExit 1 st)"
      "status st \<in> set [''ERROR'', ''FAILURE_INPUT_ERROR'']"
    by blast
  then show ?thesis
  proof cases
    case go
    from go(2) have "sanitize_filename (paper_title_local (stage2 env a st)) = Inr f"
      by (simp add: stage2_title)
    from stage3_ends [OF this, of a env] go(1) show ?thesis
      by (auto simp: doi_to_pdf_downloader_def run_def)
  next
    case stop
    then show ?thesis
      by (auto simp: doi_to_pdf_downloader_def run_def)
  qed
qed

text \<open>A DOI that OpenAlex does not know, with no browser, in batch mode.\<close>

theorem returns_in_batch_mode_witness:
  "\<exists>s. doi_to_pdf_downloader offline (call (Some ''10.1000/xyz'') None True) = Returned s
       \<and> status s \<in> set [''SUCCESS'', ''FAILURE'', ''ERROR'', ''FAILURE_INPUT_ERROR'',
                          ''FAILURE_SAVE_PDF'']"
proof -
  have g: "get_paper_metadata offline (identifier_doi (call (Some ''10.1000/xyz'') None True))
             (identifier_name (call (Some ''10.1000/xyz'') None True))
             (identifier_url (call (Some ''10.1000/xyz'') None True))
           = Inl (Exn NotFoundError
                    ''OpenAlex API request failed for DOI: 10.1000/xyz: 404 Client Error'')"
    by code_simp
  have b: "is_batch_mode (call (Some ''10.1000/xyz'') None True)"
    by (simp add: call_def)
  from returns_in_batch_mode [of offline "call (Some ''10.1000/xyz'') None True"] g b
  show ?thesis by (simp add: isinstance_def)
qed

text \<open>
  The claim as the specification states it fails: with the default
  \<open>is_batch_mode=False\<close>, a title that OpenAlex does not find ends in \<open>sys.exit(1)\<close>;
  SystemExit reaches the caller and no summary is returned.
\<close>

theorem returns_in_batch_mode_counterexample:
  "doi_to_pdf_downloader offline (call None (Some ''Example Paper'') False) = Exited 1"
  by code_simp

subsection \<open>The status \<open>SUCCESS\<close>\<close>





subsection \<open>Metadata that is not found\<close>

text \<open>
  C5, as the code has it. Let the Metadata Resolver fail with NotFoundError. If the
  input was a DOI, stage 1 goes on with status \<open>FAILURE_OPENALEX_METADATA\<close>, the
  literal input DOI as \<open>final_doi\<close> and \<open>resolved_doi\<close> and the DOI with \<open>/\<close> and \<open>.\<close>
  replaced by \<open>_\<close> as title, and stage 2 attempts the fallback with that DOI: the page
  \<open>SCI_HUB_URL/<doi>\<close> is recorded as tried. If the input was not a DOI, the status
  \<open>FAILURE_OPENALEX_METADATA\<close> is set, no fallback is attempted, and the call returns
  the summary in batch mode and ends the process with \<open>sys.exit(1)\<close> otherwise.
\<close>

theorem metadata_not_found_paths:
  assumes "get_paper_metadata env (identifier_doi a) (identifier_name a) (identifier_url a) = Inl e"
    and "isinstance e NotFoundError"
  shows "(opt_str (identifier_doi a) \<noteq> [] \<longrightarrow>
           (\<exists>st. stage1 env a (initial_state a) = Continue st
              \<and> status st = ''FAILURE_OPENALEX_METADATA''
              \<and> final_doi st = JStr (opt_str (identifier_doi a))
              \<and> resolved_doi st = JStr (opt_str (identifier_doi a))
              \<and> paper_title st
                  = JStr (py_replace ''.'' ''_'' (py_replace ''/'' ''_'' (opt_str (identifier_doi a))))
              \<and> stage2 env a st
                  = scihub_attempt env a (opt_str (identifier_doi a))
                      (inner_log ''INFO''
                         (''Attempting Sci-Hub fallback for DOI: '' @ opt_str (identifier_doi a)
                          @ '' using '' @ scihub_retrieval_method a @ '' method.'')
                         (st\<lparr>scihub_page_url_tried :=
                               Some (rstrip ''/'' (SCI_HUB_URL env) @ ''/''
                                     @ opt_str (identifier_doi a))\<rparr>))
              \<and> scihub_page_url_tried (stage2 env a st)
                  = Some (rstrip ''/'' (SCI_HUB_URL env) @ ''/'' @ opt_str (identifier_doi a))))
         \<and> (opt_str (identifier_doi a) = [] \<longrightarrow>
           (\<exists>st. run env a = (if is_batch_mode a then Return st else SysExit 1 st)
              \<and> doi_to_pdf_downloader env a
                  = (if is_batch_mode a then Returned (summary.truncate st) else Exited 1)
              \<and> ''FAILURE_OPENALEX_METADATA'' \<in> set (status_trace st)
              \<and> scihub_page_url_tried st = None
              \<and> map fst (events st) = [''INFO'', ''ERROR'', ''ERROR'']))"
proof -
  let ?d = "opt_str (identifier_doi a)"
  have A: "\<exists>st. stage1 env a (initial_state a) = Continue st
              \<and> status st = ''FAILURE_OPENALEX_METADATA''
              \<and> final_doi st = JStr ?d
              \<and> resolved_doi st = JStr ?d
              \<and> paper_title st = JStr (py_replace ''.'' ''_'' (py_replace ''/'' ''_'' ?d))
              \<and> stage2 env a st
                  = scihub_attempt env a ?d
                      (inner_log ''INFO''
                         (''Attempting Sci-Hub fallback for DOI: '' @ ?d
                          @ '' using '' @ scihub_retrieval_method a @ '' method.'')
                         (st\<lparr>scihub_page_url_tried :=
                               Some (rstrip ''/'' (SCI_HUB_URL env) @ ''/'' @ ?d)\<rparr>))
              \<and> scihub_page_url_tried (stage2 env a st)
                  = Some (rstrip ''/'' (SCI_HUB_URL env) @ ''/'' @ ?d)"
    if d: "?d \<noteq> []"
  proof -
    from stage1_not_found_doi [OF assms d, of "initial_state a"]
    obtain st where st: "stage1 env a (initial_state a) = Continue st"
      "status st = ''FAILURE_OPENALEX_METADATA''" "final_doi st = JStr ?d"
      "resolved_doi st = JStr ?d"
      "paper_title st = JStr (py_replace ''.'' ''_'' (py_replace ''/'' ''_'' ?d))"
      "pdf_content st = pdf_content (initial_state a)"
      by blast
    from st(6) have e: "opt_str (pdf_content st) = []"
      by (simp add: initial_state_def opt_str_def)
    note f = stage2_fallback [OF e st(3) d, of env a]
    have "scihub_page_url_tried (stage2 env a st)
          = Some (rstrip ''/'' (SCI_HUB_URL env) @ ''/'' @ ?d)"
      unfolding f
      by (rule scihub_attempt_keeps_page) simp
    with st f show ?thesis by blast
  qed
  have B: "\<exists>st. run env a = (if is_batch_mode a then Return st else SysExit 1 st)
              \<and> doi_to_pdf_downloader env a
                  = (if is_batch_mode a then Returned (summary.truncate st) else Exited 1)
              \<and> ''FAILURE_OPENALEX_METADATA'' \<in> set (status_trace st)
              \<and> scihub_page_url_tried st = None
              \<and> map fst (events st) = [''INFO'', ''ERROR'', ''ERROR'']"
    if d: "?d = []"
  proof -
    from stage1_not_found_other [OF assms d, of "initial_state a"]
    obtain st where st:
      "stage1 env a (initial_state a) = (if is_batch_mode a then Return st else SysExit 1 st)"
      "''FAILURE_OPENALEX_METADATA'' \<in> set (status_trace st)"
      "scihub_page_url_tried st = scihub_page_url_tried (initial_state a)"
      "map fst (events st) = map fst (events (initial_state a)) @ [''INFO'', ''ERROR'', ''ERROR'']"
      by blast
    then show ?thesis
      by (intro exI [of _ st]) (simp add: run_def doi_to_pdf_downloader_def initial_state_def)
  qed
  from A B show ?thesis by blast
qed

text \<open>A DOI and a title that OpenAlex does not know, in batch mode.\<close>

theorem metadata_not_found_paths_witness:
  "scihub_page_url_tried
     (stage2 offline (call (Some ''10.1000/xyz'') None True)
        (flow_state (stage1 offline (call (Some ''10.1000/xyz'') None True)
                       (initial_state (call (Some ''10.1000/xyz'') None True)))))
   = Some ''https://sci-hub.mksa.top/10.1000/xyz''
   \<and> resolved_doi
        (flow_state (stage1 offline (call (Some ''10.1000/xyz'') None True)
                       (initial_state (call (Some ''10.1000/xyz'') None True))))
     = JStr ''10.1000/xyz''
   \<and> map_option scihub_page_url_tried
        (returned (doi_to_pdf_downloader offline (call None (Some ''Example Paper'') True)))
     = Some None"
proof -
  let ?a = "call (Some ''10.1000/xyz'') None True"
  let ?b = "call None (Some ''Example Paper'') True"
  have ga: "get_paper_metadata offline (identifier_doi ?a) (identifier_name ?a) (identifier_url ?a)
            = Inl (Exn NotFoundError
                     ''OpenAlex API request failed for DOI: 10.1000/xyz: 404 Client Error'')"
    by code_simp
  have gb: "get_paper_metadata offline (identifier_doi ?b) (identifier_name ?b) (identifier_url ?b)
            = Inl (Exn NotFoundError
                     ''OpenAlex API request failed for Name: Example Paper: 404 Client Error'')"
    by code_simp
  have nf: "isinstance (Exn NotFoundError m) NotFoundError" for m
    by (simp add: isinstance_def)
  have da: "opt_str (identifier_doi ?a) = ''10.1000/xyz''"
    and db: "opt_str (identifier_doi ?b) = []" and bb: "is_batch_mode ?b"
    by (simp_all add: call_def opt_str_def)
  have u: "rstrip ''/'' (SCI_HUB_URL offline) = ''https://sci-hub.mksa.top''"
    by (simp add: offline_def rstrip_def)
  from metadata_not_found_paths [OF ga nf] da u
  have 1: "scihub_page_url_tried (stage2 offline ?a (flow_state (stage1 offline ?a (initial_state ?a))))
             = Some ''https://sci-hub.mksa.top/10.1000/xyz''
           \<and> resolved_doi (flow_state (stage1 offline ?a (initial_state ?a))) = JStr ''10.1000/xyz''"
    by auto
  from metadata_not_found_paths [OF gb nf] db bb
  have 2: "map_option scihub_page_url_tried (returned (doi_to_pdf_downloader offline ?b)) = Some None"
    by (auto simp: returned_def summary.truncate_def)
  from 1 2 show ?thesis by simp
qed

text \<open>
  The claim as the specification states it fails for an input that is not a DOI: with
  the default \<open>is_batch_mode=False\<close> the call does not return but ends in
  \<open>sys.exit(1)\<close>, and in batch mode the summary it returns has the status \<open>ERROR\<close>, the
  level of the event logged after \<open>FAILURE_OPENALEX_METADATA\<close> was set.
\<close>

theorem metadata_not_found_paths_counterexample:
  "doi_to_pdf_downloader offline (call None (Some ''Unknown Work'') False) = Exited 1
   \<and> map_option status
        (returned (doi_to_pdf_downloader offline (call None (Some ''Unknown Work'') True)))
      = Some ''ERROR''"
  by code_simp

subsection \<open>The DOI used for the query and for the fallback\<close>

lemma normalize_https: "normalize_doi (''https://doi.org/'' @ d) = d"
  by (simp add: normalize_doi_def startswith_def)

lemma normalize_http: "normalize_doi (''http://doi.org/'' @ d) = d"
  by (simp add: normalize_doi_def startswith_def)

lemma build_query_https:
  "build_query (Some (''https://doi.org/'' @ d)) n u
     = Inr (Query (base_api_url @ ''/https://doi.org/'' @ d) [] (''DOI: '' @ d))"
  using normalize_https [of d] by (simp add: build_query_def opt_str_def Let_def)

lemma build_query_http:
  "build_query (Some (''http://doi.org/'' @ d)) n u
     = Inr (Query (base_api_url @ ''/https://doi.org/'' @ d) [] (''DOI: '' @ d))"
  using normalize_http [of d] by (simp add: build_query_def opt_str_def Let_def)

lemma metadata_scheme:
  "get_paper_metadata env (Some (''https://doi.org/'' @ d)) n u
   = get_paper_metadata env (Some (''http://doi.org/'' @ d)) n u"
  unfolding get_paper_metadata_def build_query_https build_query_http
  by (cases "opt_str n = []") (simp_all add: select_record_def)

text \<open>
  C8, as the code has it. For a DOI with the prefix \<open>https://doi.org/\<close> or
  \<open>http://doi.org/\<close>, the identifier used for the metadata query is the bare DOI, and
  the query and all that \<open>get_paper_metadata\<close> returns are the same for both schemes.
  On the fallback path the identifier is \<open>final_doi\<close>: the DOI of the record that was
  found (the same for both schemes, as the record is), but the literal input, prefix
  included, when the metadata was not found.
\<close>

theorem doi_prefix_normalized:
  "normalize_doi (''https://doi.org/'' @ d) = d
   \<and> normalize_doi (''http://doi.org/'' @ d) = d
   \<and> build_query (Some (''https://doi.org/'' @ d)) n u
       = Inr (Query (base_api_url @ ''/https://doi.org/'' @ d) [] (''DOI: '' @ d))
   \<and> build_query (Some (''http://doi.org/'' @ d)) n u
       = Inr (Query (base_api_url @ ''/https://doi.org/'' @ d) [] (''DOI: '' @ d))
   \<and> get_paper_metadata env (Some (''https://doi.org/'' @ d)) n u
       = get_paper_metadata env (Some (''http://doi.org/'' @ d)) n u
   \<and> (get_paper_metadata env (identifier_doi a) (identifier_name a) (identifier_url a)
         = Inr (doi, title, url, q)
       \<and> stage1 env a st0 = Continue st \<longrightarrow> final_doi st = doi)
   \<and> (get_paper_metadata env (identifier_doi a) (identifier_name a) (identifier_url a) = Inl e
       \<and> isinstance e NotFoundError \<and> opt_str (identifier_doi a) \<noteq> [] \<longrightarrow>
         (\<exists>st'. stage1 env a st0 = Continue st'
                \<and> final_doi st' = JStr (opt_str (identifier_doi a))))"
  using normalize_https [of d] normalize_http [of d] build_query_https [of d n u]
        build_query_http [of d n u] metadata_scheme [of env d n u]
        stage1_found [of env a doi title url q st0 st]
        stage1_not_found_doi [of env a e st0]
  by blast

text \<open>The prefixed DOI of a work that OpenAlex does not know.\<close>

theorem doi_prefix_normalized_witness:
  "normalize_doi ''http://doi.org/10.1000/xyz'' = ''10.1000/xyz''
   \<and> final_doi (flow_state (stage1 offline (call (Some ''http://doi.org/10.1000/xyz'') None True)
                              (initial_state (call (Some ''http://doi.org/10.1000/xyz'') None True))))
     = JStr ''http://doi.org/10.1000/xyz''"
proof -
  let ?a = "call (Some ''http://doi.org/10.1000/xyz'') None True"
  have g: "get_paper_metadata offline (identifier_doi ?a) (identifier_name ?a) (identifier_url ?a)
           = Inl (Exn NotFoundError
                    ''OpenAlex API request failed for DOI: 10.1000/xyz: 404 Client Error'')"
    by code_simp
  have nf: "isinstance (Exn NotFoundError
                    ''OpenAlex API request failed for DOI: 10.1000/xyz: 404 Client Error'')
              NotFoundError"
    by (simp add: isinstance_def)
  have d: "opt_str (identifier_doi ?a) = ''http://doi.org/10.1000/xyz''"
    by (simp add: call_def opt_str_def)
  from doi_prefix_normalized
         [of "''10.1000/xyz''" None None offline ?a JNull JNull JNull "[]" "initial_state ?a"
             "initial_state ?a"
             "Exn NotFoundError
                ''OpenAlex API request failed for DOI: 10.1000/xyz: 404 Client Error''"]
       g nf d
  show ?thesis by auto
qed

text \<open>
  The claim as the specification states it fails on the fallback path: when OpenAlex
  does not know the work, the identifier of the fallback is the input with its prefix,
  and differs between the two schemes.
\<close>

theorem doi_prefix_normalized_counterexample:
  "map_option resolved_doi
     (returned (doi_to_pdf_downloader offline
                  (call (Some ''http://doi.org/10.1000/xyz'') None True)))
   = Some (JStr ''http://doi.org/10.1000/xyz'')
  \<and> map_option scihub_page_url_tried
     (returned (doi_to_pdf_downloader offline
                  (call (Some ''http://doi.org/10.1000/xyz'') None True)))
   = Some (Some ''https://sci-hub.mksa.top/http://doi.org/10.1000/xyz'')
  \<and> map_option scihub_page_url_tried
     (returned (doi_to_pdf_downloader offline
                  (call (Some ''https://doi.org/10.1000/xyz'') None True)))
   = Some (Some ''https://sci-hub.mksa.top/https://doi.org/10.1000/xyz'')"
  by code_simp

section \<open>Properties of the Batch Runner\<close>





end
